theory Spec2Isabelle
  imports Main "HOL-Library.Word"
begin

section \<open>JavaScript strings\<close>

text \<open>
  A JavaScript string is a sequence of UTF-16 code units; \<open>length\<close> is the source's
  \<^verbatim>\<open>.length\<close>. ASCII literals of the source are written \<open>js ''...''\<close>.
\<close>

type_synonym code_unit = "16 word"
type_synonym jsstring = "code_unit list"

definition js :: "string \<Rightarrow> jsstring" where
  "js s = map of_char s"

definition LF :: code_unit where
  "LF = 0x0A"

definition dash :: code_unit where
  "dash = 0x2D"

definition space :: code_unit where
  "space = 0x20"

text \<open>
  ECMAScript LineTerminator: the code units the regular-expression atom \<^verbatim>\<open>.\<close> refuses
  (no \<^verbatim>\<open>s\<close> flag is used anywhere in the source).
\<close>

definition isLineTerminator :: "code_unit \<Rightarrow> bool" where
  "isLineTerminator c \<longleftrightarrow> c = 0x0A \<or> c = 0x0D \<or> c = 0x2028 \<or> c = 0x2029"

text \<open>
  ECMAScript WhiteSpace and LineTerminator: what \<^verbatim>\<open>String.prototype.trim\<close> strips and what
  \<^verbatim>\<open>\s\<close> matches (TAB, LF, VT, FF, CR, SP, NBSP, the Unicode space separators, LS, PS, BOM).
\<close>

definition isWhiteSpace :: "code_unit \<Rightarrow> bool" where
  "isWhiteSpace c \<longleftrightarrow>
     c = 0x09 \<or> c = 0x0A \<or> c = 0x0B \<or> c = 0x0C \<or> c = 0x0D \<or> c = 0x20 \<or> c = 0xA0 \<or>
     c = 0x1680 \<or> (0x2000 \<le> c \<and> c \<le> 0x200A) \<or> c = 0x2028 \<or> c = 0x2029 \<or>
     c = 0x202F \<or> c = 0x205F \<or> c = 0x3000 \<or> c = 0xFEFF"

definition trim :: "jsstring \<Rightarrow> jsstring" where
  "trim s = rev (dropWhile isWhiteSpace (rev (dropWhile isWhiteSpace s)))"

text \<open>\<^verbatim>\<open>xs.join(sep)\<close> on an array of strings.\<close>

fun join :: "jsstring \<Rightarrow> jsstring list \<Rightarrow> jsstring" where
  "join sep [] = []"
| "join sep [x] = x"
| "join sep (x # y # ys) = x @ sep @ join sep (y # ys)"

text \<open>\<^verbatim>\<open>s.split(d)\<close> for a one-code-unit separator: always at least one piece.\<close>

fun split_on :: "code_unit \<Rightarrow> jsstring \<Rightarrow> jsstring list" where
  "split_on d [] = [[]]"
| "split_on d (c # cs) =
     (if c = d then [] # split_on d cs
      else (case split_on d cs of [] \<Rightarrow> [[c]] | p # ps \<Rightarrow> (c # p) # ps))"

text \<open>
  Matching a literal at the head of the input; the rest of the input is returned.
  The relation \<open>eq\<close> compares a pattern unit with an input unit.
\<close>

fun strip_prefix_by ::
  "(code_unit \<Rightarrow> code_unit \<Rightarrow> bool) \<Rightarrow> jsstring \<Rightarrow> jsstring \<Rightarrow> jsstring option" where
  "strip_prefix_by eq [] s = Some s"
| "strip_prefix_by eq (p # ps) [] = None"
| "strip_prefix_by eq (p # ps) (c # cs) = (if eq p c then strip_prefix_by eq ps cs else None)"

text \<open>
  Case-insensitive comparison (flag \<^verbatim>\<open>i\<close>, no \<^verbatim>\<open>u\<close> flag) against an ASCII pattern unit.
  ECMAScript canonicalises both units with \<^verbatim>\<open>toUpperCase\<close> and keeps a unit of code
  128 or more that would map below 128, so an ASCII pattern unit is matched by its two
  ASCII case variants only; folding ASCII lower-case letters is enough.
\<close>

definition canonicalize :: "code_unit \<Rightarrow> code_unit" where
  "canonicalize c = (if 0x61 \<le> c \<and> c \<le> 0x7A then c - 0x20 else c)"

definition eq_ci :: "code_unit \<Rightarrow> code_unit \<Rightarrow> bool" where
  "eq_ci p c \<longleftrightarrow> canonicalize p = canonicalize c"

text \<open>
  An unanchored regular expression is tried at every start index from the left;
  \<open>m\<close> is the anchored match on the rest of the input.
\<close>

fun scan :: "(jsstring \<Rightarrow> 'a option) \<Rightarrow> jsstring \<Rightarrow> 'a option" where
  "scan m [] = m []"
| "scan m (c # cs) = (case m (c # cs) of Some r \<Rightarrow> Some r | None \<Rightarrow> scan m cs)"

text \<open>\<^verbatim>\<open>s.includes(pat)\<close>.\<close>

definition js_includes :: "jsstring \<Rightarrow> jsstring \<Rightarrow> bool" where
  "js_includes pat s \<longleftrightarrow> scan (strip_prefix_by (=) pat) s \<noteq> None"

text \<open>The same test with the case-insensitive comparison, as \<^verbatim>\<open>/pat/i.test(s)\<close> does it.\<close>

definition includes_ci :: "jsstring \<Rightarrow> jsstring \<Rightarrow> bool" where
  "includes_ci pat s \<longleftrightarrow> scan (strip_prefix_by eq_ci pat) s \<noteq> None"

section \<open>Text codec of \<^verbatim>\<open>src/routes/summary.ts\<close>\<close>

definition marker :: jsstring where
  "marker = js ''Key Points:''"

definition blank :: jsstring where
  "blank = [LF, LF]"

text \<open>
  The storage format of both generate and save routes:
  \<^verbatim>\<open>`${title}\n\nKey Points:\n${keyPoints.map((point) => `- ${point}`).join("\n")}\n\n${fullSummary}`\<close>
\<close>

definition encode :: "jsstring \<Rightarrow> jsstring list \<Rightarrow> jsstring \<Rightarrow> jsstring" where
  "encode title keyPoints fullSummary =
     title @ blank @ marker @ [LF] @ join [LF] (map (\<lambda>point. [dash, space] @ point) keyPoints)
       @ blank @ fullSummary"

text \<open>
  \<^verbatim>\<open>/^(.*?)\n/\<close>: anchored at index 0; the lazy \<^verbatim>\<open>.*?\<close> first tries the line feed, otherwise
  consumes one unit that is not a line terminator. The result is capture group 1.
\<close>

fun lazy_line :: "jsstring \<Rightarrow> jsstring option" where
  "lazy_line [] = None"
| "lazy_line (c # cs) =
     (if c = LF then Some []
      else if isLineTerminator c then None
      else map_option ((#) c) (lazy_line cs))"

definition titleMatch :: "jsstring \<Rightarrow> jsstring option" where
  "titleMatch s = lazy_line s"

text \<open>
  \<^verbatim>\<open>([\s\S]*?)(?=\n\n|$)\<close>: the lazy group stops at the first index where two line feeds
  or the end of the input follow; it always matches.
\<close>

fun lazy_until_blank :: "jsstring \<Rightarrow> jsstring" where
  "lazy_until_blank [] = []"
| "lazy_until_blank (c # cs) =
     (if strip_prefix_by (=) blank (c # cs) \<noteq> None then [] else c # lazy_until_blank cs)"

text \<open>\<^verbatim>\<open>/Key Points:([\s\S]*?)(?=\n\n|$)/i\<close>, capture group 1.\<close>

definition keyPointsMatch :: "jsstring \<Rightarrow> jsstring option" where
  "keyPointsMatch s =
     scan (\<lambda>r. map_option lazy_until_blank (strip_prefix_by eq_ci marker r)) s"

text \<open>
  \<^verbatim>\<open>[\s\S]*?\n\n\<close>: lazily up to and including the first pair of line feeds; the rest
  of the input is returned.
\<close>

fun lazy_skip_blank :: "jsstring \<Rightarrow> jsstring option" where
  "lazy_skip_blank [] = None"
| "lazy_skip_blank (c # cs) =
     (case strip_prefix_by (=) blank (c # cs) of
        Some r \<Rightarrow> Some r
      | None \<Rightarrow> lazy_skip_blank cs)"

text \<open>
  \<^verbatim>\<open>/(?:Key Points:[\s\S]*?\n\n)([\s\S]*?)$/\<close> (case-sensitive, no \<^verbatim>\<open>m\<close> flag, so
  \<^verbatim>\<open>$\<close> is the end of the input and group 1 runs to it).
\<close>

definition fullSummaryMatch :: "jsstring \<Rightarrow> jsstring option" where
  "fullSummaryMatch s =
     scan (\<lambda>r. case strip_prefix_by (=) marker r of
                  None \<Rightarrow> None
                | Some r' \<Rightarrow> lazy_skip_blank r') s"

text \<open>
  \<^verbatim>\<open>keyPointsMatch[1].split("-").map((point) => point.trim()).filter((point) => point.length > 0)\<close>
\<close>

definition extractKeyPoints :: "jsstring \<Rightarrow> jsstring list" where
  "extractKeyPoints cap = filter (\<lambda>point. length point > 0) (map trim (split_on dash cap))"

text \<open>The structured summary \<^verbatim>\<open>{ title, keyPoints, fullSummary }\<close>.\<close>

record decoded =
  d_title :: jsstring
  d_keyPoints :: "jsstring list"
  d_fullSummary :: jsstring

text \<open>
  The decoding of the read paths (\<^verbatim>\<open>GET /summary\<close> and \<^verbatim>\<open>GET /summary/:id\<close>, the same
  statements in both variants of the file): the title is taken from the first line whether
  or not the marker is found.
\<close>

definition decode :: "jsstring \<Rightarrow> decoded" where
  "decode s =
     (let title = (case titleMatch s of Some t \<Rightarrow> trim t | None \<Rightarrow> [])
      in case keyPointsMatch s of
           None \<Rightarrow> \<lparr>d_title = title, d_keyPoints = [], d_fullSummary = s\<rparr>
         | Some cap \<Rightarrow>
             \<lparr>d_title = title,
              d_keyPoints = extractKeyPoints cap,
              d_fullSummary = (case fullSummaryMatch s of Some f \<Rightarrow> trim f | None \<Rightarrow> s)\<rparr>)"

text \<open>
  The decoding on the short-circuit path of \<^verbatim>\<open>POST /summary/generate\<close>: the title defaults to
  \<^verbatim>\<open>metadata.title || "Video Summary"\<close> and is replaced only inside the marker branch.
\<close>

definition decode_existing :: "jsstring \<Rightarrow> jsstring \<Rightarrow> decoded" where
  "decode_existing defaultTitle s =
     (case keyPointsMatch s of
        None \<Rightarrow> \<lparr>d_title = defaultTitle, d_keyPoints = [], d_fullSummary = s\<rparr>
      | Some cap \<Rightarrow>
          \<lparr>d_title = (case titleMatch s of Some t \<Rightarrow> trim t | None \<Rightarrow> defaultTitle),
           d_keyPoints = extractKeyPoints cap,
           d_fullSummary = (case fullSummaryMatch s of Some f \<Rightarrow> trim f | None \<Rightarrow> s)\<rparr>)"

text \<open>
  One encoded key point with the line feed before it, and the key points that the
  decoding gives back unchanged: not empty, without white space at either end, without
  a dash and without an empty line.
\<close>

definition bullet :: "jsstring \<Rightarrow> jsstring" where
  "bullet p = LF # dash # space # p"

definition good_point :: "jsstring \<Rightarrow> bool" where
  "good_point p \<longleftrightarrow> p \<noteq> [] \<and> trim p = p \<and> dash \<notin> set p \<and> \<not> js_includes blank p"

section \<open>Generation adapter\<close>

text \<open>
  \<^verbatim>\<open>!v\<close> and \<^verbatim>\<open>a || b\<close> on an optional string: \<^verbatim>\<open>undefined\<close>, \<^verbatim>\<open>null\<close> and the empty
  string are falsy.
\<close>

definition falsy :: "jsstring option \<Rightarrow> bool" where
  "falsy v \<longleftrightarrow> (case v of None \<Rightarrow> True | Some s \<Rightarrow> s = [])"

definition or_else :: "jsstring option \<Rightarrow> jsstring \<Rightarrow> jsstring" where
  "or_else v d = (case v of None \<Rightarrow> d | Some s \<Rightarrow> if s \<noteq> [] then s else d)"

record metadata =
  m_videoId :: "jsstring option"
  m_url :: "jsstring option"
  m_title :: "jsstring option"

text \<open>\<^verbatim>\<open>metadata?.title || "Video Summary"\<close>\<close>

definition titleOf :: "metadata option \<Rightarrow> jsstring" where
  "titleOf md = (case md of None \<Rightarrow> js ''Video Summary'' | Some m \<Rightarrow> or_else (m_title m) (js ''Video Summary''))"

definition isDelimiter :: "code_unit \<Rightarrow> bool" where
  "isDelimiter c \<longleftrightarrow> c = 0x2E \<or> c = 0x21 \<or> c = 0x3F"

text \<open>
  \<^verbatim>\<open>transcript.split(/[.!?]+/)\<close>: the separator is a maximal run of delimiters
  (the quantifier is greedy), and the empty string gives one empty piece.
\<close>

function split_delims :: "jsstring \<Rightarrow> jsstring list" where
  "split_delims [] = [[]]"
| "split_delims (c # cs) =
     (if isDelimiter c then [] # split_delims (dropWhile isDelimiter cs)
      else (case split_delims cs of [] \<Rightarrow> [[c]] | p # ps \<Rightarrow> (c # p) # ps))"
  by pat_completeness auto
termination
  by (relation "measure length") (auto simp: length_dropWhile_le less_Suc_eq_le)

text \<open>\<^verbatim>\<open>arr.indexOf(s)\<close>, with -1 for an absent element.\<close>

fun indexOf :: "'a list \<Rightarrow> 'a \<Rightarrow> int" where
  "indexOf [] x = -1"
| "indexOf (y # ys) x = (if y = x then 0 else (let i = indexOf ys x in if i < 0 then -1 else i + 1))"

text \<open>\<^verbatim>\<open>.filter((s, i, arr) => arr.indexOf(s) === i)\<close>\<close>

definition removeDuplicates :: "'a list \<Rightarrow> 'a list" where
  "removeDuplicates arr = map snd (filter (\<lambda>(i, s). indexOf arr s = int i) (enumerate 0 arr))"

text \<open>\<^verbatim>\<open>transcript.split(/[.!?]+/).filter((s) => s.trim().length > 20)\<close>\<close>

definition sentencesOf :: "jsstring \<Rightarrow> jsstring list" where
  "sentencesOf transcript = filter (\<lambda>s. length (trim s) > 20) (split_delims transcript)"

text \<open>
  \<^verbatim>\<open>src/services/generateSummary.ts\<close>: the provider is never called; the body of the
  \<^verbatim>\<open>try\<close> has no statement that throws on a string, so its \<^verbatim>\<open>catch\<close> is not a branch.
\<close>

definition generateSummary :: "jsstring \<Rightarrow> metadata option \<Rightarrow> decoded" where
  "generateSummary transcript md =
     (let title = titleOf md;
          sentences = sentencesOf transcript;
          keyPoints = removeDuplicates (map trim (take (min 5 (length sentences)) sentences));
          summary = js ''This video discusses '' @ join (js ''. It also covers '') keyPoints
      in \<lparr>d_title = title,
          d_keyPoints = (if length keyPoints > 0 then keyPoints else []),
          d_fullSummary = or_else (Some summary) (js ''Summary generation failed. Please try again.'')\<rparr>)"

text \<open>
  The second service file (the OpenAI one), its emoji table as UTF-16 code units:
  U+1F511, U+1F4A1, U+1F4CC, U+2728, U+1F50D, U+1F4CA, U+1F9E0, U+1F3AF.
\<close>

definition emojis :: "jsstring list" where
  "emojis = [[0xD83D, 0xDD11], [0xD83D, 0xDCA1], [0xD83D, 0xDCCC], [0x2728],
             [0xD83D, 0xDD0D], [0xD83D, 0xDCCA], [0xD83E, 0xDDE0], [0xD83C, 0xDFAF]]"

text \<open>\<^verbatim>\<open>keyPoints.map((point, index) => `${emojis[index % emojis.length]} ${point}`)\<close>\<close>

definition addEmojis :: "jsstring list \<Rightarrow> jsstring list" where
  "addEmojis keyPoints =
     map (\<lambda>(index, point). emojis ! (index mod length emojis) @ [space] @ point) (enumerate 0 keyPoints)"

definition summaryHeading :: jsstring where
  "summaryHeading = [0xD83E, 0xDDE0] @ js '' **Summary:**'' @ [LF]"

text \<open>
  The fallback of the outer \<^verbatim>\<open>catch\<close>. Nothing in it throws on a string, so the inner
  \<^verbatim>\<open>catch\<close> with its fixed key point is not a branch.
\<close>

definition fallbackSummary :: "jsstring \<Rightarrow> jsstring \<Rightarrow> decoded" where
  "fallbackSummary title transcript =
     (let sentences = sentencesOf transcript;
          keyPoints = addEmojis (removeDuplicates (map trim (take (min 8 (length sentences)) sentences)));
          topSentences = join (js ''. '') (take (min 10 (length sentences)) sentences);
          fullSummary = summaryHeading @ or_else (Some topSentences) (js ''Summary not available.'')
      in \<lparr>d_title = title,
          d_keyPoints = (if length keyPoints > 0 then keyPoints else []),
          d_fullSummary = fullSummary\<rparr>)"

datatype gen_error = TooShort | ProviderFailed

text \<open>
  The \<^verbatim>\<open>try\<close> block of the OpenAI variant: it throws at once on a transcript shorter than
  100 code units. The request to the provider and the parsing of its answer are the
  parameter \<open>provider\<close>, \<open>None\<close> when anything there throws.
\<close>

definition tryProvider ::
  "(jsstring \<Rightarrow> jsstring \<Rightarrow> decoded option) \<Rightarrow> jsstring \<Rightarrow> jsstring \<Rightarrow> gen_error + decoded" where
  "tryProvider provider title transcript =
     (if length transcript < 100 then Inl TooShort
      else (case provider title transcript of None \<Rightarrow> Inl ProviderFailed | Some r \<Rightarrow> Inr r))"

definition generateSummary_openai ::
  "(jsstring \<Rightarrow> jsstring \<Rightarrow> decoded option) \<Rightarrow> jsstring \<Rightarrow> metadata option \<Rightarrow> decoded" where
  "generateSummary_openai provider transcript md =
     (let title = titleOf md
      in case tryProvider provider title transcript of
           Inr r \<Rightarrow> r
         | Inl e \<Rightarrow> fallbackSummary title transcript)"

section \<open>The store\<close>

text \<open>
  The two Prisma models, with the columns the routes read or write. A \<^verbatim>\<open>uuid()\<close> key
  is a natural number and a timestamp is a number of milliseconds; the value the
  database picks for a new row comes with the request's environment. \<^verbatim>\<open>credits\<close> is
  an \<^verbatim>\<open>Int\<close> column, modelled without its 32-bit range. Rows are kept in insertion
  order, and \<^verbatim>\<open>findFirst\<close> without \<^verbatim>\<open>orderBy\<close> returns the earliest matching row.
  \<^verbatim>\<open>prisma/schema.prisma\<close> declares the columns \<^verbatim>\<open>title\<close> and \<^verbatim>\<open>videoId\<close> of a summary
  as required strings without a default, so every stored row has them.
\<close>

type_synonym user_id = nat
type_synonym summary_id = nat
type_synonym timestamp = nat

record user_row =
  u_id :: user_id
  u_email :: jsstring
  u_name :: "jsstring option"
  u_passwordHash :: jsstring
  u_imageUrl :: "jsstring option"
  u_credits :: int
  u_createdAt :: timestamp
  u_verificationToken :: "jsstring option"
  u_refreshToken :: "jsstring option"
  u_lastLogin :: "timestamp option"

record summary_row =
  s_id :: summary_id
  s_userId :: user_id
  s_title :: jsstring
  s_videoId :: jsstring
  s_videoUrl :: jsstring
  s_transcript :: jsstring
  s_summary :: jsstring
  s_createdAt :: timestamp

text \<open>
  The \<^verbatim>\<open>data\<close> object of a call of \<^verbatim>\<open>summary.create\<close>; a property that the call does not
  pass is \<open>None\<close>.
\<close>

record summary_data =
  c_userId :: user_id
  c_title :: "jsstring option"
  c_videoId :: "jsstring option"
  c_videoUrl :: jsstring
  c_transcript :: jsstring
  c_summary :: jsstring

record db =
  users :: "user_row list"
  summaries :: "summary_row list"

text \<open>
  Every call of the Prisma client may reject; the handlers catch that. The environment
  of one request says which calls reject, and gives the key and the time of a new row.
\<close>

datatype db_call =
  SummaryFindFirst | SummaryCreate | SummaryDelete
| UserFindUnique | UserCreate | UserUpdate | TxCommit

record env =
  fails :: "db_call \<Rightarrow> bool"
  new_id :: nat
  now :: timestamp

definition findUser :: "user_id \<Rightarrow> db \<Rightarrow> user_row option" where
  "findUser uid d = find (\<lambda>u. u_id u = uid) (users d)"

definition findUserByEmail :: "jsstring \<Rightarrow> db \<Rightarrow> user_row option" where
  "findUserByEmail email d = find (\<lambda>u. u_email u = email) (users d)"

text \<open>
  \<^verbatim>\<open>summary.create\<close>: the client rejects a \<^verbatim>\<open>data\<close> object without the required \<^verbatim>\<open>title\<close>
  or \<^verbatim>\<open>videoId\<close>, and the relation to \<^verbatim>\<open>User\<close> makes the database reject an unknown
  owner. Otherwise the row is stored with the \<^verbatim>\<open>id\<close> and \<^verbatim>\<open>createdAt\<close> that the database
  picks, and returned.
\<close>

definition createSummary :: "env \<Rightarrow> summary_data \<Rightarrow> db \<Rightarrow> (summary_row \<times> db) option" where
  "createSummary e dat d =
     (case c_title dat of
        None \<Rightarrow> None
      | Some title \<Rightarrow>
     (case c_videoId dat of
        None \<Rightarrow> None
      | Some videoId \<Rightarrow>
        if findUser (c_userId dat) d = None then None
        else
          let row = \<lparr>s_id = new_id e, s_userId = c_userId dat, s_title = title,
                     s_videoId = videoId, s_videoUrl = c_videoUrl dat,
                     s_transcript = c_transcript dat, s_summary = c_summary dat,
                     s_createdAt = now e\<rparr>
          in Some (row, d\<lparr>summaries := summaries d @ [row]\<rparr>)))"

text \<open>
  \<^verbatim>\<open>user.update({ where: { id }, data: { credits: { decrement: 1 } } })\<close>: rejects when no
  such user exists.
\<close>

definition debit :: "user_id \<Rightarrow> user_row \<Rightarrow> user_row" where
  "debit uid u = (if u_id u = uid then u\<lparr>u_credits := u_credits u - 1\<rparr> else u)"

definition decrementCredits :: "user_id \<Rightarrow> db \<Rightarrow> db option" where
  "decrementCredits uid d =
     (if findUser uid d = None then None
      else Some (d\<lparr>users := map (debit uid) (users d)\<rparr>))"

definition deleteSummary :: "summary_id \<Rightarrow> db \<Rightarrow> db" where
  "deleteSummary i d = d\<lparr>summaries := filter (\<lambda>r. s_id r \<noteq> i) (summaries d)\<rparr>"

section \<open>Responses\<close>

datatype body =
  Error jsstring
| Existing decoded jsstring summary_id timestamp "bool option"
| Generated decoded "summary_id option" jsstring "timestamp option" "bool option" int
| Saved summary_id timestamp "bool option"
| Deleted summary_id
| Session jsstring timestamp user_id "jsstring option" jsstring int

text \<open>
  \<open>Existing\<close>: the decoded summary, \<^verbatim>\<open>sourceUrl\<close>, \<^verbatim>\<open>id\<close>, \<^verbatim>\<open>createdAt\<close>, \<^verbatim>\<open>alreadySaved\<close>.
  \<open>Generated\<close>: the generated summary, \<^verbatim>\<open>id\<close>, \<^verbatim>\<open>sourceUrl\<close>, \<^verbatim>\<open>createdAt\<close>,
  \<^verbatim>\<open>alreadySaved\<close>, \<^verbatim>\<open>creditsRemaining\<close>. \<open>Saved\<close>: \<^verbatim>\<open>id\<close>, \<^verbatim>\<open>createdAt\<close>, \<^verbatim>\<open>alreadySaved\<close>.
  \<open>Session\<close>: \<^verbatim>\<open>token\<close>, \<^verbatim>\<open>expiresAt\<close>, and the user's id, name, email and credits.
  An absent property is \<open>None\<close>.
\<close>

record response =
  status :: nat
  payload :: body

definition reply :: "nat \<Rightarrow> body \<Rightarrow> response" where
  "reply code b = \<lparr>status = code, payload = b\<rparr>"

section \<open>\<^verbatim>\<open>POST /summary/generate\<close>\<close>

record generate_request =
  g_user :: "user_id option"
  g_content :: "jsstring option"
  g_metadata :: "metadata option"

text \<open>\<^verbatim>\<open>metadata.url || `https://www.youtube.com/watch?v=${metadata.videoId}`\<close>\<close>

definition videoUrlOf :: "jsstring option \<Rightarrow> jsstring \<Rightarrow> jsstring" where
  "videoUrlOf url videoId = or_else url (js ''https://www.youtube.com/watch?v='' @ videoId)"

text \<open>The response of the short-circuit path, from the stored row.\<close>

definition existingReply :: "metadata \<Rightarrow> summary_row \<Rightarrow> bool option \<Rightarrow> response" where
  "existingReply md e alreadySaved =
     reply 200 (Existing (decode_existing (or_else (m_title md) (js ''Video Summary'')) (s_summary e))
                         (s_videoUrl e) (s_id e) (s_createdAt e) alreadySaved)"

text \<open>
  The transaction of the first variant: \<^verbatim>\<open>tx.summary.create\<close> then \<^verbatim>\<open>tx.user.update\<close>;
  when either rejects, or the commit does, nothing is written. It returns the created
  row.
\<close>

definition createAndDebit :: "env \<Rightarrow> summary_data \<Rightarrow> db \<Rightarrow> (summary_row \<times> db) option" where
  "createAndDebit e dat d =
     (if fails e SummaryCreate \<or> fails e UserUpdate \<or> fails e TxCommit then None
      else (case createSummary e dat d of
              None \<Rightarrow> None
            | Some (createdSummary, d1) \<Rightarrow>
                map_option (Pair createdSummary) (decrementCredits (c_userId dat) d1)))"

text \<open>
  First variant of the route. The adapter \<open>gen\<close> is a parameter; both service files
  give a total function. The lookup is by \<^verbatim>\<open>videoUrl\<close> alone; there is no test of the
  balance; the \<^verbatim>\<open>data\<close> of the create call has \<^verbatim>\<open>userId\<close>, \<^verbatim>\<open>videoUrl\<close>, \<^verbatim>\<open>summary\<close> and
  \<^verbatim>\<open>transcript\<close> only; an error of the transaction is caught and the summary returned
  all the same.
\<close>

definition generate_v1 ::
  "(jsstring \<Rightarrow> metadata option \<Rightarrow> decoded) \<Rightarrow> env \<Rightarrow> generate_request \<Rightarrow> db \<Rightarrow> response \<times> db" where
  "generate_v1 gen e req d =
     (case g_user req of
        None \<Rightarrow> (reply 401 (Error (js ''User not authenticated'')), d)
      | Some userId \<Rightarrow>
     (case g_content req of
        None \<Rightarrow> (reply 400 (Error (js ''Content (transcript) is required'')), d)
      | Some content \<Rightarrow>
     if content = [] then (reply 400 (Error (js ''Content (transcript) is required'')), d)
     else
     (case g_metadata req of
        None \<Rightarrow> (reply 400 (Error (js ''Video metadata with videoId is required'')), d)
      | Some md \<Rightarrow>
     (case m_videoId md of
        None \<Rightarrow> (reply 400 (Error (js ''Video metadata with videoId is required'')), d)
      | Some videoId \<Rightarrow>
     if videoId = [] then (reply 400 (Error (js ''Video metadata with videoId is required'')), d)
     else
       let videoUrl = videoUrlOf (m_url md) videoId;
           existingSummary =
             (if fails e SummaryFindFirst then None
              else find (\<lambda>r. s_videoUrl r = videoUrl) (summaries d))
       in
     (case existingSummary of
        Some ex \<Rightarrow> (existingReply md ex None, d)
      | None \<Rightarrow>
     (case (if fails e UserFindUnique then Some 0 else map_option u_credits (findUser userId d)) of
        None \<Rightarrow> (reply 404 (Error (js ''User not found'')), d)
      | Some userCredits \<Rightarrow>
       let summary = gen content (Some md) in
       if d_fullSummary summary = [] then (reply 500 (Error (js ''Failed to generate summary'')), d)
       else
         let summaryText = encode (d_title summary) (d_keyPoints summary) (d_fullSummary summary);
             dat = \<lparr>c_userId = userId, c_title = None, c_videoId = None,
                    c_videoUrl = videoUrl, c_transcript = content, c_summary = summaryText\<rparr>
         in
       (case createAndDebit e dat d of
          None \<Rightarrow>
            (reply 200 (Generated summary None videoUrl None None (max 0 (userCredits - 1))), d)
        | Some (newSummary, d') \<Rightarrow>
            (reply 200 (Generated summary (Some (s_id newSummary)) videoUrl
                          (Some (s_createdAt newSummary)) None (max 0 (userCredits - 1))), d'))))))))"

text \<open>
  Second variant of the route: the lookup is by \<^verbatim>\<open>videoUrl\<close> and \<^verbatim>\<open>userId\<close>, the balance
  is tested, the credit is debited, and no row is written (``Return the generated
  summary without saving it to database yet'').
\<close>

definition generate_v2 ::
  "(jsstring \<Rightarrow> metadata option \<Rightarrow> decoded) \<Rightarrow> env \<Rightarrow> generate_request \<Rightarrow> db \<Rightarrow> response \<times> db" where
  "generate_v2 gen e req d =
     (case g_user req of
        None \<Rightarrow> (reply 401 (Error (js ''User not authenticated'')), d)
      | Some userId \<Rightarrow>
     (case g_content req of
        None \<Rightarrow> (reply 400 (Error (js ''Content (transcript) is required'')), d)
      | Some content \<Rightarrow>
     if content = [] then (reply 400 (Error (js ''Content (transcript) is required'')), d)
     else
     (case g_metadata req of
        None \<Rightarrow> (reply 400 (Error (js ''Video metadata with videoId is required'')), d)
      | Some md \<Rightarrow>
     (case m_videoId md of
        None \<Rightarrow> (reply 400 (Error (js ''Video metadata with videoId is required'')), d)
      | Some videoId \<Rightarrow>
     if videoId = [] then (reply 400 (Error (js ''Video metadata with videoId is required'')), d)
     else
       let videoUrl = videoUrlOf (m_url md) videoId;
           existingSummary =
             (if fails e SummaryFindFirst then None
              else find (\<lambda>r. s_videoUrl r = videoUrl \<and> s_userId r = userId) (summaries d))
       in
     (case existingSummary of
        Some ex \<Rightarrow> (existingReply md ex (Some True), d)
      | None \<Rightarrow>
     if fails e UserFindUnique then (reply 500 (Error (js ''Failed to check user credits'')), d)
     else
     (case findUser userId d of
        None \<Rightarrow> (reply 404 (Error (js ''User not found'')), d)
      | Some user \<Rightarrow>
       let userCredits = u_credits user in
       if userCredits \<le> 0 then (reply 403 (Error (js ''Not enough credits to generate summary'')), d)
       else
         let summary = gen content (Some md) in
         if d_fullSummary summary = [] then (reply 500 (Error (js ''Failed to generate summary'')), d)
         else
           let d' = (if fails e UserUpdate then d
                     else (case decrementCredits userId d of None \<Rightarrow> d | Some d1 \<Rightarrow> d1))
           in (reply 200 (Generated summary None videoUrl None (Some False) (max 0 (userCredits - 1))),
               d')))))))"

section \<open>\<^verbatim>\<open>POST /summary/save\<close>\<close>

text \<open>\<open>sv_keyPoints\<close> is \<open>None\<close> when the property is not an array, so that \<^verbatim>\<open>.map\<close> throws.\<close>

record save_request =
  sv_videoId :: "jsstring option"
  sv_title :: "jsstring option"
  sv_keyPoints :: "jsstring list option"
  sv_fullSummary :: "jsstring option"
  sv_sourceUrl :: "jsstring option"
  sv_transcript :: "jsstring option"

text \<open>
  First variant: the create call is made without any lookup, with \<^verbatim>\<open>userId\<close>,
  \<^verbatim>\<open>videoUrl\<close>, \<^verbatim>\<open>summary\<close> and an empty \<^verbatim>\<open>transcript\<close>.
\<close>

definition save_v1 :: "env \<Rightarrow> user_id \<Rightarrow> save_request \<Rightarrow> db \<Rightarrow> response \<times> db" where
  "save_v1 e userId req d =
     (if falsy (sv_videoId req) \<or> falsy (sv_title req) \<or> falsy (sv_fullSummary req)
      then (reply 400 (Error (js ''Missing required fields'')), d)
      else
        let videoId = the (sv_videoId req); title = the (sv_title req);
            fullSummary = the (sv_fullSummary req);
            videoUrl = videoUrlOf (sv_sourceUrl req) videoId
        in
      (case sv_keyPoints req of
         None \<Rightarrow> (reply 500 (Error (js ''Failed to create summary'')), d)
       | Some keyPoints \<Rightarrow>
          let dat = \<lparr>c_userId = userId, c_title = None, c_videoId = None,
                     c_videoUrl = videoUrl, c_transcript = [],
                     c_summary = encode title keyPoints fullSummary\<rparr> in
          if fails e SummaryCreate then (reply 500 (Error (js ''Failed to create summary'')), d)
          else
          (case createSummary e dat d of
             None \<Rightarrow> (reply 500 (Error (js ''Failed to create summary'')), d)
           | Some (newSummary, d') \<Rightarrow>
               (reply 200 (Saved (s_id newSummary) (s_createdAt newSummary) None), d'))))"

text \<open>
  Second variant: an existing row of the same user and URL is returned instead; the
  create call passes \<^verbatim>\<open>title\<close> and \<^verbatim>\<open>videoId\<close> too.
\<close>

definition save_v2 :: "env \<Rightarrow> user_id \<Rightarrow> save_request \<Rightarrow> db \<Rightarrow> response \<times> db" where
  "save_v2 e userId req d =
     (if falsy (sv_videoId req) \<or> falsy (sv_title req) \<or> falsy (sv_fullSummary req)
      then (reply 400 (Error (js ''Missing required fields'')), d)
      else
        let videoId = the (sv_videoId req); title = the (sv_title req);
            fullSummary = the (sv_fullSummary req);
            videoUrl = videoUrlOf (sv_sourceUrl req) videoId
        in
      if fails e SummaryFindFirst then (reply 500 (Error (js ''Failed to save summary'')), d)
      else
      (case find (\<lambda>r. s_videoUrl r = videoUrl \<and> s_userId r = userId) (summaries d) of
         Some ex \<Rightarrow> (reply 200 (Saved (s_id ex) (s_createdAt ex) (Some True)), d)
       | None \<Rightarrow>
      (case sv_keyPoints req of
         None \<Rightarrow> (reply 500 (Error (js ''Failed to save summary'')), d)
       | Some keyPoints \<Rightarrow>
          let dat = \<lparr>c_userId = userId, c_title = Some title, c_videoId = Some videoId,
                     c_videoUrl = videoUrl, c_transcript = or_else (sv_transcript req) [],
                     c_summary = encode title keyPoints fullSummary\<rparr> in
          if fails e SummaryCreate then (reply 500 (Error (js ''Failed to save summary'')), d)
          else
          (case createSummary e dat d of
             None \<Rightarrow> (reply 500 (Error (js ''Failed to save summary'')), d)
           | Some (newSummary, d') \<Rightarrow>
               (reply 200 (Saved (s_id newSummary) (s_createdAt newSummary) (Some True)), d')))))"

section \<open>\<^verbatim>\<open>DELETE /summary/:id\<close>\<close>

text \<open>The same statements in both variants of the file.\<close>

definition delete_route :: "env \<Rightarrow> user_id \<Rightarrow> summary_id \<Rightarrow> db \<Rightarrow> response \<times> db" where
  "delete_route e userId i d =
     (if fails e SummaryFindFirst then (reply 500 (Error (js ''Failed to delete summary'')), d)
      else
      (case find (\<lambda>r. s_id r = i \<and> s_userId r = userId) (summaries d) of
         None \<Rightarrow> (reply 404 (Error (js ''Summary not found'')), d)
       | Some summary \<Rightarrow>
          if fails e SummaryDelete then (reply 500 (Error (js ''Failed to delete summary'')), d)
          else (reply 200 (Deleted i), deleteSummary i d)))"

section \<open>\<^verbatim>\<open>POST /auth/signup\<close>\<close>

record signup_request =
  su_email :: "jsstring option"
  su_password :: "jsstring option"
  su_name :: "jsstring option"

text \<open>
  What \<^verbatim>\<open>bcrypt\<close>, \<^verbatim>\<open>crypto.randomBytes\<close> and \<^verbatim>\<open>jwt.sign\<close> give during one request
  (\<^verbatim>\<open>src/utils/auth.ts\<close>).
\<close>

record crypto =
  hashPassword :: "jsstring \<Rightarrow> jsstring"
  verificationToken :: jsstring
  accessToken :: "user_id \<Rightarrow> jsstring \<Rightarrow> jsstring"
  refreshToken :: jsstring

text \<open>\<^verbatim>\<open>30 * 24 * 60 * 60 * 1000\<close> milliseconds.\<close>

definition refreshTokenExpiresIn :: nat where
  "refreshTokenExpiresIn = 30 * 24 * 60 * 60 * 1000"

definition signup :: "crypto \<Rightarrow> env \<Rightarrow> signup_request \<Rightarrow> db \<Rightarrow> response \<times> db" where
  "signup c e req d =
     (if falsy (su_email req) \<or> falsy (su_password req) \<or> falsy (su_name req)
      then (reply 400 (Error (js ''Missing required fields'')), d)
      else
        let email = the (su_email req); password = the (su_password req); name = the (su_name req) in
      if fails e UserFindUnique then (reply 500 (Error (js ''Server error'')), d)
      else
      (case findUserByEmail email d of
         Some existingUser \<Rightarrow> (reply 400 (Error (js ''User already exists'')), d)
       | None \<Rightarrow>
          let user = \<lparr>u_id = new_id e, u_email = email, u_name = Some name,
                      u_passwordHash = hashPassword c password, u_imageUrl = None,
                      u_credits = 10, u_createdAt = now e,
                      u_verificationToken = Some (verificationToken c),
                      u_refreshToken = None, u_lastLogin = None\<rparr>
          in
          if fails e UserCreate then (reply 500 (Error (js ''Server error'')), d)
          else
            let d1 = d\<lparr>users := users d @ [user]\<rparr> in
          if fails e UserUpdate then (reply 500 (Error (js ''Server error'')), d1)
          else
            let d2 = d1\<lparr>users := map (\<lambda>u. if u_id u = u_id user
                                            then u\<lparr>u_refreshToken := Some (refreshToken c),
                                                   u_lastLogin := Some (now e)\<rparr>
                                            else u) (users d1)\<rparr>
            in (reply 200 (Session (accessToken c (u_id user) (u_email user))
                                   (now e + refreshTokenExpiresIn)
                                   (u_id user) (u_name user) (u_email user) (u_credits user)),
                d2)))"

section \<open>Sample data\<close>

text \<open>Small stores, requests and environments on which the routes are run below.\<close>

definition sample_user :: "user_id \<Rightarrow> jsstring \<Rightarrow> int \<Rightarrow> user_row" where
  "sample_user uid email credits =
     \<lparr>u_id = uid, u_email = email, u_name = Some (js ''Ann''), u_passwordHash = js ''hash'',
      u_imageUrl = None, u_credits = credits, u_createdAt = 0,
      u_verificationToken = None, u_refreshToken = None, u_lastLogin = None\<rparr>"

definition sample_url :: jsstring where
  "sample_url = js ''https://www.youtube.com/watch?v=abc''"

definition sample_metadata :: metadata where
  "sample_metadata = \<lparr>m_videoId = Some (js ''abc''), m_url = None, m_title = Some (js ''Talk'')\<rparr>"

definition sample_request :: "user_id \<Rightarrow> generate_request" where
  "sample_request uid =
     \<lparr>g_user = Some uid, g_content = Some (js ''Hello there.''), g_metadata = Some sample_metadata\<rparr>"

definition sample_row :: "summary_id \<Rightarrow> user_id \<Rightarrow> summary_row" where
  "sample_row i uid =
     \<lparr>s_id = i, s_userId = uid, s_title = js ''Talk'', s_videoId = js ''abc'',
      s_videoUrl = sample_url, s_transcript = [],
      s_summary = encode (js ''Talk'') [js ''one''] (js ''Body.''), s_createdAt = 10\<rparr>"






definition sample_save :: save_request where
  "sample_save =
     \<lparr>sv_videoId = Some (js ''abc''), sv_title = Some (js ''Talk''),
      sv_keyPoints = Some [js ''one''], sv_fullSummary = Some (js ''Body.''),
      sv_sourceUrl = None, sv_transcript = None\<rparr>"

text \<open>The same request with the \<^verbatim>\<open>sourceUrl\<close> that the generate route returned.\<close>

definition sample_save_back :: save_request where
  "sample_save_back = sample_save\<lparr>sv_sourceUrl := Some sample_url\<rparr>"

text \<open>Complete data of a create call: the fields that \<^verbatim>\<open>schema.prisma\<close> requires.\<close>

definition sample_data :: "user_id \<Rightarrow> summary_data" where
  "sample_data uid =
     \<lparr>c_userId = uid, c_title = Some (js ''Talk''), c_videoId = Some (js ''abc''),
      c_videoUrl = sample_url, c_transcript = [],
      c_summary = encode (js ''Talk'') [js ''one''] (js ''Body.'')\<rparr>"

definition sample_signup :: signup_request where
  "sample_signup =
     \<lparr>su_email = Some (js ''ann@example.org''), su_password = Some (js ''secret''),
      su_name = Some (js ''Ann'')\<rparr>"

definition sample_crypto :: crypto where
  "sample_crypto =
     \<lparr>hashPassword = (\<lambda>p. js ''hash''), verificationToken = js ''v'',
      accessToken = (\<lambda>uid email. js ''jwt''), refreshToken = js ''r''\<rparr>"

text \<open>An environment in which exactly the listed calls reject.\<close>

definition failing :: "db_call list \<Rightarrow> nat \<Rightarrow> timestamp \<Rightarrow> env" where
  "failing cs i t = \<lparr>fails = (\<lambda>c. c \<in> set cs), new_id = i, now = t\<rparr>"

section \<open>Lemmas on matching and trimming\<close>

lemma isLineTerminator_LF: "isLineTerminator LF"
  by (simp add: isLineTerminator_def LF_def)

lemma lazy_line_first:
  "\<forall>c\<in>set t. \<not> isLineTerminator c \<Longrightarrow> lazy_line (t @ LF # r) = Some t"
  using isLineTerminator_LF by (induction t) auto

lemma lazy_line_no_LF: "LF \<notin> set s \<Longrightarrow> lazy_line s = None"
  by (induction s) auto

lemma lazy_line_terminator:
  "LF \<notin> set t \<Longrightarrow> \<exists>c\<in>set t. isLineTerminator c \<Longrightarrow> lazy_line (t @ LF # r) = None"
  by (induction t) auto

lemma strip_prefix_by_refl:
  "(\<And>p. eq p p) \<Longrightarrow> strip_prefix_by eq pat (pat @ r) = Some r"
  by (induction pat) auto

lemma strip_prefix_by_stop:
  "strip_prefix_by eq pat u = None \<Longrightarrow> \<forall>p\<in>set pat. \<not> eq p x \<Longrightarrow>
   strip_prefix_by eq pat (u @ x # r) = None"
  by (induction eq pat u rule: strip_prefix_by.induct) (auto split: if_splits)

lemma strip_prefix_by_mono:
  "strip_prefix_by eq' pat u = None \<Longrightarrow> (\<And>p c. eq p c \<Longrightarrow> eq' p c) \<Longrightarrow>
   strip_prefix_by eq pat u = None"
  by (induction eq pat u rule: strip_prefix_by.induct) (auto split: if_splits)

lemma scan_past:
  "scan g t = None \<Longrightarrow> (\<And>u. g u = None \<Longrightarrow> m (u @ x # r) = None) \<Longrightarrow>
   scan m (t @ x # r) = scan m (x # r)"
proof (induction t)
  case Nil
  then show ?case by simp
next
  case (Cons a t)
  from Cons.prems(1) have g: "g (a # t) = None" and s: "scan g t = None"
    by (auto split: option.splits)
  from Cons.prems(2) [OF g] have "m (a # t @ x # r) = None" by simp
  moreover have "scan m (t @ x # r) = scan m (x # r)"
    using Cons.IH [OF s Cons.prems(2)] by simp
  ultimately show ?case by simp
qed

lemma scan_map_option_None:
  "scan (\<lambda>r. map_option f (g r)) s = None \<longleftrightarrow> scan g s = None"
  by (induction s) (auto split: option.splits)

lemma keyPointsMatch_None: "keyPointsMatch s = None \<longleftrightarrow> \<not> includes_ci marker s"
  by (simp add: keyPointsMatch_def includes_ci_def scan_map_option_None)

lemma eq_ci_refl: "eq_ci p p"
  by (simp add: eq_ci_def)

lemma marker_no_LF: "\<forall>p\<in>set marker. \<not> eq_ci p LF"
  by (simp add: marker_def js_def eq_ci_def canonicalize_def LF_def)

lemma marker_no_LF': "\<forall>p\<in>set marker. p \<noteq> LF"
  by (simp add: marker_def js_def LF_def)

lemma marker_Cons: "\<exists>k ks. marker = k # ks \<and> \<not> eq_ci k LF \<and> k \<noteq> LF"
  by (simp add: marker_def js_def eq_ci_def canonicalize_def LF_def)

lemma trim_length_le: "length (trim s) \<le> length s"
proof -
  have "length (trim s) \<le> length (dropWhile isWhiteSpace s)"
    using length_dropWhile_le [of isWhiteSpace "rev (dropWhile isWhiteSpace s)"]
    by (simp add: trim_def)
  also have "\<dots> \<le> length s" by (rule length_dropWhile_le)
  finally show ?thesis .
qed

lemma trim_length_dropWhile: "length (trim s) \<le> length (dropWhile isWhiteSpace s)"
  using length_dropWhile_le [of isWhiteSpace "rev (dropWhile isWhiteSpace s)"]
  by (simp add: trim_def)

lemma trim_fixed_hd:
  assumes "trim p = p" "p \<noteq> []"
  shows "\<not> isWhiteSpace (hd p)"
proof
  assume w: "isWhiteSpace (hd p)"
  from assms(2) obtain c cs where p: "p = c # cs" by (cases p) auto
  with w have "dropWhile isWhiteSpace p = dropWhile isWhiteSpace cs" by simp
  then have "length (dropWhile isWhiteSpace p) \<le> length cs"
    by (simp add: length_dropWhile_le)
  moreover have "length (trim p) \<le> length (dropWhile isWhiteSpace p)"
    by (rule trim_length_dropWhile)
  ultimately have "length (trim p) < length p" using p by simp
  with assms(1) show False by simp
qed

lemma trim_fixed_last:
  assumes "trim p = p" "p \<noteq> []"
  shows "\<not> isWhiteSpace (last p)"
proof
  assume w: "isWhiteSpace (last p)"
  have h: "\<not> isWhiteSpace (hd p)" by (rule trim_fixed_hd [OF assms])
  with assms(2) have d: "dropWhile isWhiteSpace p = p" by (cases p) auto
  from assms(2) obtain c cs where r: "rev p = c # cs" by (cases "rev p") auto
  then have "c = last p" using assms(2) by (metis hd_rev list.sel(1))
  with w have "dropWhile isWhiteSpace (c # cs) = dropWhile isWhiteSpace cs" by simp
  then have "length (dropWhile isWhiteSpace (c # cs)) \<le> length cs"
    by (simp only: length_dropWhile_le)
  then have "length (dropWhile isWhiteSpace (rev p)) \<le> length cs"
    by (simp only: r)
  then have "length (trim p) \<le> length cs" by (simp add: trim_def d)
  moreover have "length p = Suc (length cs)" using r by (metis length_Cons length_rev)
  ultimately show False using assms(1) by simp
qed

lemma trim_padded:
  assumes a: "\<forall>c\<in>set a. isWhiteSpace c" and b: "\<forall>c\<in>set b. isWhiteSpace c"
    and p: "trim p = p"
  shows "trim (a @ p @ b) = p"
proof (cases "p = []")
  case True
  have e: "dropWhile isWhiteSpace (a @ b) = []"
    unfolding dropWhile_eq_Nil_conv using a b by auto
  show ?thesis
    by (simp only: trim_def True append_Nil e rev.simps dropWhile.simps)
next
  case False
  have h: "\<not> isWhiteSpace (hd p)" and l: "\<not> isWhiteSpace (last p)"
    using trim_fixed_hd [OF p False] trim_fixed_last [OF p False] by auto
  from False h have 1: "dropWhile isWhiteSpace (a @ p @ b) = p @ b"
    using a by (cases p) (auto simp: dropWhile_append)
  from False obtain c cs where r: "rev p = c # cs" by (cases "rev p") auto
  then have "c = last p" using False by (metis hd_rev list.sel(1))
  with l have "dropWhile isWhiteSpace (c # cs) = c # cs" by simp
  then have "dropWhile isWhiteSpace (rev p) = rev p" by (simp only: r)
  moreover have "dropWhile isWhiteSpace (rev b @ rev p) = dropWhile isWhiteSpace (rev p)"
    using b by (intro dropWhile_append2) simp
  ultimately have 2: "dropWhile isWhiteSpace (rev b @ rev p) = rev p" by simp
  show ?thesis by (simp add: trim_def 1 2)
qed

lemma isWhiteSpace_space: "isWhiteSpace space"
  by (simp add: isWhiteSpace_def space_def)

lemma isWhiteSpace_LF: "isWhiteSpace LF"
  by (simp add: isWhiteSpace_def LF_def)

lemma trim_LF: "trim [LF] = []"
  by (simp add: trim_def isWhiteSpace_LF)

lemma trim_space_point: "trim p = p \<Longrightarrow> trim (space # p) = p"
  using trim_padded [of "[space]" "[]" p] by (simp add: isWhiteSpace_space)

lemma trim_space_point_LF: "trim p = p \<Longrightarrow> trim (space # p @ [LF]) = p"
  using trim_padded [of "[space]" "[LF]" p] by (simp add: isWhiteSpace_space isWhiteSpace_LF)

lemma trim_LF_prose: "trim p = p \<Longrightarrow> trim (LF # p) = p"
  using trim_padded [of "[LF]" "[]" p] by (simp add: isWhiteSpace_LF)

lemma includes_blank_Nil: "js_includes blank [] = False"
  by (simp add: js_includes_def blank_def)

lemma includes_blank_single: "js_includes blank [c] = False"
  by (simp add: js_includes_def blank_def)

lemma includes_blank_Cons2:
  "js_includes blank (c # d # cs) \<longleftrightarrow> (c = LF \<and> d = LF) \<or> js_includes blank (d # cs)"
  by (auto simp: js_includes_def blank_def split: option.splits if_splits)

lemmas includes_blank_simps = includes_blank_Nil includes_blank_single includes_blank_Cons2

lemma lazy_until_blank_single: "lazy_until_blank [c] = [c]"
  by (simp add: blank_def)

lemma lazy_until_blank_Cons2:
  "lazy_until_blank (c # d # r) = (if c = LF \<and> d = LF then [] else c # lazy_until_blank (d # r))"
  by (simp add: blank_def)

lemma lazy_skip_blank_single: "lazy_skip_blank [c] = None"
  by (simp add: blank_def)

lemma lazy_skip_blank_Cons2:
  "lazy_skip_blank (c # d # r) = (if c = LF \<and> d = LF then Some r else lazy_skip_blank (d # r))"
  by (simp add: blank_def)

lemma lazy_until_blank_stop:
  "\<not> js_includes blank xs \<Longrightarrow> xs = [] \<or> last xs \<noteq> LF \<Longrightarrow>
   lazy_until_blank (xs @ LF # LF # f) = xs"
proof (induction xs rule: induct_list012)
  case 1
  then show ?case by (simp add: lazy_until_blank_Cons2 del: lazy_until_blank.simps)
next
  case (2 x)
  then show ?case by (simp add: lazy_until_blank_Cons2 del: lazy_until_blank.simps)
next
  case (3 x y zs)
  from 3 have n: "\<not> (x = LF \<and> y = LF)" and i: "\<not> js_includes blank (y # zs)"
    by (auto simp: includes_blank_simps)
  from 3 have l: "y # zs = [] \<or> last (y # zs) \<noteq> LF" by simp
  have "lazy_until_blank ((x # y # zs) @ LF # LF # f) = x # lazy_until_blank ((y # zs) @ LF # LF # f)"
    using n by (auto simp add: lazy_until_blank_Cons2 simp del: lazy_until_blank.simps)
  also have "\<dots> = x # y # zs" by (simp only: "3.IH"(2) [OF i l])
  finally show ?case .
qed

lemma lazy_skip_blank_stop:
  "\<not> js_includes blank xs \<Longrightarrow> xs = [] \<or> last xs \<noteq> LF \<Longrightarrow>
   lazy_skip_blank (xs @ LF # LF # f) = Some f"
proof (induction xs rule: induct_list012)
  case 1
  then show ?case by (simp add: lazy_skip_blank_Cons2 del: lazy_skip_blank.simps)
next
  case (2 x)
  then show ?case by (simp add: lazy_skip_blank_Cons2 del: lazy_skip_blank.simps)
next
  case (3 x y zs)
  from 3 have n: "\<not> (x = LF \<and> y = LF)" and i: "\<not> js_includes blank (y # zs)"
    by (auto simp: includes_blank_simps)
  from 3 have l: "y # zs = [] \<or> last (y # zs) \<noteq> LF" by simp
  have "lazy_skip_blank ((x # y # zs) @ LF # LF # f) = lazy_skip_blank ((y # zs) @ LF # LF # f)"
    using n by (auto simp add: lazy_skip_blank_Cons2 simp del: lazy_skip_blank.simps)
  also have "\<dots> = Some f" by (rule "3.IH"(2) [OF i l])
  finally show ?case .
qed

lemma includes_blank_append:
  "js_includes blank (xs @ ys) \<longleftrightarrow>
     js_includes blank xs \<or> js_includes blank ys \<or> (xs \<noteq> [] \<and> ys \<noteq> [] \<and> last xs = LF \<and> hd ys = LF)"
proof (induction xs rule: induct_list012)
  case 1
  then show ?case by (simp add: includes_blank_simps)
next
  case (2 x)
  then show ?case by (cases ys) (auto simp: includes_blank_simps)
next
  case (3 x y zs)
  then show ?case by (auto simp: includes_blank_simps)
qed

lemma split_on_nonempty: "split_on d s \<noteq> []"
  by (induction s) (auto split: list.splits)

lemma split_on_none: "d \<notin> set xs \<Longrightarrow> split_on d xs = [xs]"
  by (induction xs) auto

lemma split_on_first: "d \<notin> set xs \<Longrightarrow> split_on d (xs @ d # ys) = xs # split_on d ys"
  by (induction xs) auto

lemma extractKeyPoints_first:
  "dash \<notin> set xs \<Longrightarrow>
   extractKeyPoints (xs @ dash # ys) = filter (\<lambda>p. length p > 0) [trim xs] @ extractKeyPoints ys"
  by (simp add: extractKeyPoints_def split_on_first)

lemma extractKeyPoints_none:
  "dash \<notin> set xs \<Longrightarrow> extractKeyPoints xs = filter (\<lambda>p. length p > 0) [trim xs]"
  by (simp add: extractKeyPoints_def split_on_none)

lemma section_concat:
  "ps \<noteq> [] \<Longrightarrow> [LF] @ join [LF] (map (\<lambda>point. [dash, space] @ point) ps) = concat (map bullet ps)"
  by (induction ps rule: induct_list012) (auto simp: bullet_def)

lemma dash_not_LF: "dash \<noteq> LF" by (simp add: dash_def LF_def)
lemma space_not_LF: "space \<noteq> LF" by (simp add: space_def LF_def)
lemma space_not_dash: "space \<noteq> dash" by (simp add: dash_def space_def)
lemma LF_not_dash: "LF \<noteq> dash" by (simp add: dash_def LF_def)

lemma good_point_ends: "good_point p \<Longrightarrow> hd p \<noteq> LF \<and> last p \<noteq> LF"
  using trim_fixed_hd [of p] trim_fixed_last [of p] isWhiteSpace_LF
  by (auto simp: good_point_def)

lemma bullet_no_blank:
  assumes "good_point p"
  shows "\<not> js_includes blank (bullet p)" and "last (bullet p) \<noteq> LF"
proof -
  from assms obtain c cs where p: "p = c # cs" by (cases p) (auto simp: good_point_def)
  from good_point_ends [OF assms] p have c: "c \<noteq> LF" by simp
  from assms have n: "\<not> js_includes blank p" by (simp add: good_point_def)
  show "\<not> js_includes blank (bullet p)"
    using n c by (simp add: bullet_def p includes_blank_simps dash_not_LF space_not_LF)
  show "last (bullet p) \<noteq> LF"
    using good_point_ends [OF assms] by (simp add: bullet_def p)
qed

lemma section_no_blank:
  "\<forall>p\<in>set ps. good_point p \<Longrightarrow>
   \<not> js_includes blank (concat (map bullet ps)) \<and>
   (ps \<noteq> [] \<longrightarrow> last (concat (map bullet ps)) \<noteq> LF)"
proof (induction ps)
  case Nil
  then show ?case by (simp add: includes_blank_simps)
next
  case (Cons p ps)
  then have g: "good_point p" and IH: "\<not> js_includes blank (concat (map bullet ps))"
    "ps \<noteq> [] \<longrightarrow> last (concat (map bullet ps)) \<noteq> LF" by auto
  have b: "bullet p \<noteq> []" by (simp add: bullet_def)
  have 1: "\<not> js_includes blank (bullet p @ concat (map bullet ps))"
    using bullet_no_blank [OF g] IH(1) by (simp add: includes_blank_append)
  have 2: "last (bullet p @ concat (map bullet ps)) \<noteq> LF"
  proof (cases ps)
    case Nil
    then show ?thesis using bullet_no_blank(2) [OF g] by simp
  next
    case (Cons q qs)
    then have "concat (map bullet ps) \<noteq> []" by (simp add: bullet_def)
    then show ?thesis using IH(2) Cons by simp
  qed
  from 1 2 show ?case by simp
qed

lemma extract_section:
  "\<forall>p\<in>set ps. good_point p \<Longrightarrow> dash \<notin> set pre \<Longrightarrow>
   extractKeyPoints (pre @ concat (map bullet ps)) =
     (if ps = [] then filter (\<lambda>p. length p > 0) [trim pre]
      else filter (\<lambda>p. length p > 0) [trim (pre @ [LF])] @ ps)"
proof (induction ps arbitrary: pre)
  case Nil
  then show ?case by (simp add: extractKeyPoints_none)
next
  case (Cons p ps)
  then have g: "good_point p" and gs: "\<forall>p\<in>set ps. good_point p" by auto
  from g have d: "dash \<notin> set (space # p)" and t: "trim p = p" and ne: "p \<noteq> []"
    using space_not_dash by (auto simp: good_point_def)
  have pre: "dash \<notin> set (pre @ [LF])" using Cons.prems(2) LF_not_dash by auto
  have "extractKeyPoints (pre @ concat (map bullet (p # ps)))
        = extractKeyPoints ((pre @ [LF]) @ dash # ((space # p) @ concat (map bullet ps)))"
    by (simp add: bullet_def)
  also have "\<dots> = filter (\<lambda>p. length p > 0) [trim (pre @ [LF])]
                   @ extractKeyPoints ((space # p) @ concat (map bullet ps))"
    by (rule extractKeyPoints_first [OF pre])
  also have "extractKeyPoints ((space # p) @ concat (map bullet ps)) = p # ps"
    using Cons.IH [OF gs d] t ne trim_space_point [OF t] trim_space_point_LF [OF t]
    by (auto simp del: append_Cons simp add: append_Cons [symmetric])
  finally show ?case by simp
qed

lemma scan_hit: "m s = Some r \<Longrightarrow> scan m s = Some r"
  by (cases s) auto

lemma marker_at_LF: "strip_prefix_by eq_ci marker (LF # r) = None"
proof -
  from marker_Cons obtain k ks where m: "marker = k # ks" and n: "\<not> eq_ci k LF" by blast
  show ?thesis unfolding m using n by simp
qed

lemma marker_at_LF': "strip_prefix_by (=) marker (LF # r) = None"
proof -
  from marker_Cons obtain k ks where m: "marker = k # ks" and n: "k \<noteq> LF" by blast
  show ?thesis unfolding m using n by simp
qed

lemma scan_skip: "m (x # r) = None \<Longrightarrow> scan m (x # r) = scan m r"
  by simp

lemma keyPointsMatch_encoded:
  assumes "\<not> includes_ci marker title"
  shows "keyPointsMatch (title @ LF # LF # marker @ rest) = Some (lazy_until_blank rest)"
proof -
  let ?m = "\<lambda>r. map_option lazy_until_blank (strip_prefix_by eq_ci marker r)"
  from assms have n: "scan (strip_prefix_by eq_ci marker) title = None"
    by (simp add: includes_ci_def)
  have "scan ?m (title @ LF # LF # marker @ rest) = scan ?m (LF # LF # marker @ rest)"
  proof (rule scan_past [OF n])
    fix u assume "strip_prefix_by eq_ci marker u = None"
    then show "?m (u @ LF # LF # marker @ rest) = None"
      using strip_prefix_by_stop [of eq_ci marker u LF] marker_no_LF by simp
  qed
  also have "\<dots> = scan ?m (LF # marker @ rest)"
    by (rule scan_skip) (simp add: marker_at_LF)
  also have "\<dots> = scan ?m (marker @ rest)"
    by (rule scan_skip) (simp add: marker_at_LF)
  also have "\<dots> = Some (lazy_until_blank rest)"
    by (rule scan_hit) (simp add: strip_prefix_by_refl eq_ci_refl)
  finally show ?thesis by (simp add: keyPointsMatch_def)
qed

lemma fullSummaryMatch_encoded:
  assumes "\<not> includes_ci marker title" and f: "lazy_skip_blank rest = Some f"
  shows "fullSummaryMatch (title @ LF # LF # marker @ rest) = Some f"
proof -
  let ?m = "\<lambda>r. case strip_prefix_by (=) marker r of None \<Rightarrow> None | Some r' \<Rightarrow> lazy_skip_blank r'"
  from assms have n: "scan (strip_prefix_by eq_ci marker) title = None"
    by (simp add: includes_ci_def)
  have "scan ?m (title @ LF # LF # marker @ rest) = scan ?m (LF # LF # marker @ rest)"
  proof (rule scan_past [OF n])
    fix u assume "strip_prefix_by eq_ci marker u = None"
    then have "strip_prefix_by (=) marker u = None"
      by (rule strip_prefix_by_mono) (simp add: eq_ci_refl)
    then show "?m (u @ LF # LF # marker @ rest) = None"
      using strip_prefix_by_stop [of "(=)" marker u LF] marker_no_LF' by simp
  qed
  also have "\<dots> = scan ?m (LF # marker @ rest)"
    by (rule scan_skip) (simp add: marker_at_LF')
  also have "\<dots> = scan ?m (marker @ rest)"
    by (rule scan_skip) (simp add: marker_at_LF')
  also have "\<dots> = Some f"
    by (rule scan_hit) (simp add: strip_prefix_by_refl f)
  finally show ?thesis by (simp add: fullSummaryMatch_def)
qed

lemmas codec_eval =
  decode_def encode_def js_def marker_def blank_def LF_def dash_def space_def titleMatch_def
  keyPointsMatch_def fullSummaryMatch_def extractKeyPoints_def trim_def isWhiteSpace_def
  isLineTerminator_def eq_ci_def canonicalize_def js_includes_def includes_ci_def

section \<open>Lemmas on the generation adapter\<close>

lemma removeDuplicates_Nil: "removeDuplicates [] = []"
  by (simp add: removeDuplicates_def)

lemma removeDuplicates_Cons: "removeDuplicates (x # xs) \<noteq> []"
  by (simp add: removeDuplicates_def)

lemma removeDuplicates_empty: "removeDuplicates xs = [] \<longleftrightarrow> xs = []"
  by (cases xs) (simp_all add: removeDuplicates_Nil removeDuplicates_Cons)

lemma addEmojis_empty: "addEmojis xs = [] \<longleftrightarrow> xs = []"
  by (cases xs) (simp_all add: addEmojis_def)

lemma take_min_empty: "0 < n \<Longrightarrow> take (min n (length xs)) xs = [] \<longleftrightarrow> xs = []"
  by (cases xs) auto

lemma keyPoints_generateSummary:
  "d_keyPoints (generateSummary transcript md) = [] \<longleftrightarrow> sentencesOf transcript = []"
  by (simp add: generateSummary_def Let_def removeDuplicates_empty take_min_empty)

lemma keyPoints_fallbackSummary:
  "d_keyPoints (fallbackSummary title transcript) = [] \<longleftrightarrow> sentencesOf transcript = []"
  by (simp add: fallbackSummary_def Let_def addEmojis_empty removeDuplicates_empty take_min_empty)

lemma fullSummary_generateSummary: "d_fullSummary (generateSummary transcript md) \<noteq> []"
  by (simp add: generateSummary_def Let_def or_else_def js_def)

lemma fullSummary_fallbackSummary: "d_fullSummary (fallbackSummary title transcript) \<noteq> []"
  by (simp add: fallbackSummary_def Let_def summaryHeading_def)

lemma short_takes_fallback:
  "length transcript < 100 \<Longrightarrow>
   generateSummary_openai provider transcript md = fallbackSummary (titleOf md) transcript"
  by (simp add: generateSummary_openai_def tryProvider_def)

lemmas adapter_eval =
  generateSummary_def generateSummary_openai_def tryProvider_def fallbackSummary_def titleOf_def
  or_else_def sentencesOf_def removeDuplicates_def addEmojis_def emojis_def summaryHeading_def
  isDelimiter_def trim_def isWhiteSpace_def js_def LF_def space_def Let_def

lemma sample_summary:
  "generateSummary (js ''Hello there.'') (Some sample_metadata)
     = \<lparr>d_title = js ''Talk'', d_keyPoints = [], d_fullSummary = js ''This video discusses ''\<rparr>"
  by (simp add: generateSummary_def titleOf_def or_else_def sample_metadata_def sentencesOf_def
      removeDuplicates_def isDelimiter_def trim_def isWhiteSpace_def js_def Let_def)

lemma sample_summary_nonempty: "js ''This video discusses '' \<noteq> []"
  by (simp add: js_def)

section \<open>Lemmas on the store and the routes\<close>

lemma find_by_key_unique:
  assumes "distinct (map k xs)" "r \<in> set xs" "\<not> P r"
  shows "find (\<lambda>x. k x = k r \<and> P x) xs = None"
proof -
  have "inj_on k (set xs)" using assms(1) by (simp add: distinct_map)
  then have "\<And>x. x \<in> set xs \<Longrightarrow> k x = k r \<Longrightarrow> x = r"
    using assms(2) by (auto dest: inj_onD)
  with assms(3) show ?thesis by (auto simp: find_None_iff)
qed

lemma find_append:
  "find P (xs @ ys) = (case find P xs of None \<Rightarrow> find P ys | Some x \<Rightarrow> Some x)"
  by (induction xs) auto

lemma find_earliest:
  "\<forall>x\<in>set before. \<not> P x \<Longrightarrow> P r \<Longrightarrow> find P (before @ r # after) = Some r"
  by (induction before) auto

lemma find_none: "\<forall>x\<in>set xs. \<not> P x \<Longrightarrow> find P xs = None"
  by (simp add: find_None_iff)

lemma findUser_debit:
  "findUser uid (d\<lparr>users := map (debit uid) (users d)\<rparr>) = map_option (debit uid) (findUser uid d)"
proof -
  have "find (\<lambda>u. u_id u = uid) (map (debit uid) us)
          = map_option (debit uid) (find (\<lambda>u. u_id u = uid) us)" for us
    by (induction us) (auto simp: debit_def)
  then show ?thesis by (simp add: findUser_def)
qed

lemma credits_debit: "findUser uid d = Some u \<Longrightarrow> u_credits (debit uid u) = u_credits u - 1"
  by (auto simp: findUser_def debit_def find_Some_iff)

lemma or_else_nonempty: "dflt \<noteq> [] \<Longrightarrow> or_else v dflt \<noteq> []"
  by (simp add: or_else_def split: option.splits)

lemma videoUrlOf_cases:
  "videoUrlOf url videoId =
     (case url of
        None \<Rightarrow> js ''https://www.youtube.com/watch?v='' @ videoId
      | Some u \<Rightarrow> if u = [] then js ''https://www.youtube.com/watch?v='' @ videoId else u)"
  by (simp add: videoUrlOf_def or_else_def split: option.splits)

lemma videoUrlOf_nonempty: "videoUrlOf url videoId \<noteq> []"
  by (simp add: videoUrlOf_def or_else_nonempty js_def)

lemma videoUrlOf_given: "u \<noteq> [] \<Longrightarrow> videoUrlOf (Some u) videoId = u"
  by (simp add: videoUrlOf_def or_else_def)

text \<open>The transaction writes the row and the debit, or nothing.\<close>

lemma createAndDebit_fails:
  "fails e SummaryCreate \<or> fails e UserUpdate \<or> fails e TxCommit \<Longrightarrow> createAndDebit e dat d = None"
  by (auto simp: createAndDebit_def)

lemma createAndDebit_incomplete:
  "c_title dat = None \<or> c_videoId dat = None \<Longrightarrow> createAndDebit e dat d = None"
  by (auto simp: createAndDebit_def createSummary_def split: option.splits)

lemma createSummary_incomplete:
  "c_title dat = None \<or> c_videoId dat = None \<Longrightarrow> createSummary e dat d = None"
  by (auto simp: createSummary_def split: option.splits)

lemma createAndDebit_ok:
  assumes "\<not> fails e SummaryCreate" "\<not> fails e UserUpdate" "\<not> fails e TxCommit"
    and "c_title dat = Some title" "c_videoId dat = Some videoId"
    and "findUser (c_userId dat) d \<noteq> None"
  shows "createAndDebit e dat d =
           Some (\<lparr>s_id = new_id e, s_userId = c_userId dat, s_title = title, s_videoId = videoId,
                   s_videoUrl = c_videoUrl dat, s_transcript = c_transcript dat,
                   s_summary = c_summary dat, s_createdAt = now e\<rparr>,
                 \<lparr>users = map (debit (c_userId dat)) (users d),
                    summaries = summaries d @
                      [\<lparr>s_id = new_id e, s_userId = c_userId dat, s_title = title,
                         s_videoId = videoId, s_videoUrl = c_videoUrl dat,
                         s_transcript = c_transcript dat, s_summary = c_summary dat,
                         s_createdAt = now e\<rparr>]\<rparr>)"
  using assms
  by (simp add: createAndDebit_def createSummary_def decrementCredits_def findUser_def Let_def)

lemma createAndDebit_both_or_neither:
  "createAndDebit e dat d = None \<or>
   (\<exists>row. createAndDebit e dat d =
      Some (row, \<lparr>users = map (debit (c_userId dat)) (users d), summaries = summaries d @ [row]\<rparr>))"
  by (auto simp: createAndDebit_def createSummary_def decrementCredits_def findUser_def Let_def
      split: option.splits)


lemma generate_v1_generated:
  assumes "g_user req = Some uid" and "g_content req = Some content" and "content \<noteq> []"
    and "g_metadata req = Some md" and "m_videoId md = Some videoId" and "videoId \<noteq> []"
    and "fails e SummaryFindFirst \<or>
         find (\<lambda>x. s_videoUrl x = videoUrlOf (m_url md) videoId) (summaries d) = None"
    and "\<not> fails e UserFindUnique"
    and "findUser uid d = Some u"
    and "d_fullSummary (gen content (Some md)) \<noteq> []"
  shows "generate_v1 gen e req d =
     (reply 200 (Generated (gen content (Some md)) None (videoUrlOf (m_url md) videoId)
                   None None (max 0 (u_credits u - 1))), d)"
  using assms by (auto simp add: generate_v1_def Let_def createAndDebit_incomplete)

lemma generate_v1_writes_nothing: "snd (generate_v1 gen e req d) = d"
  by (simp add: generate_v1_def Let_def createAndDebit_incomplete split: option.splits)

lemma generate_v2_existing:
  assumes "g_user req = Some uid" and "g_content req = Some content" and "content \<noteq> []"
    and "g_metadata req = Some md" and "m_videoId md = Some videoId" and "videoId \<noteq> []"
    and "\<not> fails e SummaryFindFirst"
    and "find (\<lambda>x. s_videoUrl x = videoUrlOf (m_url md) videoId \<and> s_userId x = uid) (summaries d) = Some r"
  shows "generate_v2 gen e req d = (existingReply md r (Some True), d)"
  using assms by (simp add: generate_v2_def)

lemma generate_v2_forbidden:
  assumes "g_user req = Some uid" and "g_content req = Some content" and "content \<noteq> []"
    and "g_metadata req = Some md" and "m_videoId md = Some videoId" and "videoId \<noteq> []"
    and "\<not> fails e SummaryFindFirst" and "\<not> fails e UserFindUnique"
    and "find (\<lambda>x. s_videoUrl x = videoUrlOf (m_url md) videoId \<and> s_userId x = uid) (summaries d) = None"
    and "findUser uid d = Some u" and "u_credits u \<le> 0"
  shows "generate_v2 gen e req d =
           (reply 403 (Error (js ''Not enough credits to generate summary'')), d)"
  using assms by (simp add: generate_v2_def)

lemma generate_v2_new:
  assumes "g_user req = Some uid" and "g_content req = Some content" and "content \<noteq> []"
    and "g_metadata req = Some md" and "m_videoId md = Some videoId" and "videoId \<noteq> []"
    and "\<not> fails e SummaryFindFirst" and "\<not> fails e UserFindUnique"
    and "find (\<lambda>x. s_videoUrl x = videoUrlOf (m_url md) videoId \<and> s_userId x = uid) (summaries d) = None"
    and "findUser uid d = Some u" and "0 < u_credits u"
    and "d_fullSummary (gen content (Some md)) \<noteq> []"
  shows "generate_v2 gen e req d =
     (reply 200 (Generated (gen content (Some md)) None (videoUrlOf (m_url md) videoId) None
                   (Some False) (max 0 (u_credits u - 1))),
      if fails e UserUpdate then d else d\<lparr>users := map (debit uid) (users d)\<rparr>)"
  using assms by (simp add: generate_v2_def Let_def decrementCredits_def)

lemma generate_v2_writes:
  "snd (generate_v2 gen e req d) = d \<or>
   (\<exists>uid. g_user req = Some uid \<and>
      snd (generate_v2 gen e req d) = d\<lparr>users := map (debit uid) (users d)\<rparr>)"
  by (auto simp: generate_v2_def decrementCredits_def Let_def split: option.splits)

lemma save_v1_rejected:
  assumes "sv_videoId req = Some videoId" and "videoId \<noteq> []"
    and "sv_title req = Some title" and "title \<noteq> []"
    and "sv_fullSummary req = Some fullSummary" and "fullSummary \<noteq> []"
  shows "save_v1 e uid req d = (reply 500 (Error (js ''Failed to create summary'')), d)"
  using assms
  by (simp add: save_v1_def falsy_def createSummary_incomplete Let_def split: option.splits)

lemma save_v1_writes_nothing: "snd (save_v1 e uid req d) = d"
  by (simp add: save_v1_def createSummary_incomplete Let_def split: option.splits)

lemma save_v2_existing:
  assumes "sv_videoId req = Some videoId" and "videoId \<noteq> []"
    and "sv_title req = Some title" and "title \<noteq> []"
    and "sv_fullSummary req = Some fullSummary" and "fullSummary \<noteq> []"
    and "\<not> fails e SummaryFindFirst"
    and "find (\<lambda>x. s_videoUrl x = videoUrlOf (sv_sourceUrl req) videoId \<and> s_userId x = uid) (summaries d) = Some ex"
  shows "save_v2 e uid req d = (reply 200 (Saved (s_id ex) (s_createdAt ex) (Some True)), d)"
  using assms by (simp add: save_v2_def falsy_def)

lemma save_v2_new:
  assumes "sv_videoId req = Some videoId" and "videoId \<noteq> []"
    and "sv_title req = Some title" and "title \<noteq> []"
    and "sv_fullSummary req = Some fullSummary" and "fullSummary \<noteq> []"
    and "sv_keyPoints req = Some keyPoints"
    and "\<not> fails e SummaryFindFirst" and "\<not> fails e SummaryCreate"
    and "find (\<lambda>x. s_videoUrl x = videoUrlOf (sv_sourceUrl req) videoId \<and> s_userId x = uid) (summaries d) = None"
    and "findUser uid d \<noteq> None"
  shows "save_v2 e uid req d =
          (reply 200 (Saved (new_id e) (now e) (Some True)),
           d\<lparr>summaries := summaries d @
               [\<lparr>s_id = new_id e, s_userId = uid, s_title = title, s_videoId = videoId,
                  s_videoUrl = videoUrlOf (sv_sourceUrl req) videoId,
                  s_transcript = or_else (sv_transcript req) [],
                  s_summary = encode title keyPoints fullSummary, s_createdAt = now e\<rparr>]\<rparr>)"
  using assms by (auto simp add: save_v2_def falsy_def createSummary_def Let_def)

lemma find_weaker_None: "find P xs = None \<Longrightarrow> find (\<lambda>x. P x \<and> Q x) xs = None"
  by (induction xs) (auto split: if_splits)

section \<open>Lemmas on the stored text\<close>

lemma encoded_matches:
  assumes t1: "\<forall>c\<in>set title. \<not> isLineTerminator c"
    and t3: "\<not> includes_ci marker title"
    and k: "\<forall>p\<in>set keyPoints. p \<noteq> [] \<and> trim p = p \<and> dash \<notin> set p \<and> \<not> js_includes blank p"
    and p: "trim prose = prose"
  shows "titleMatch (encode title keyPoints prose) = Some title \<and>
         (\<exists>cap. keyPointsMatch (encode title keyPoints prose) = Some cap \<and>
                extractKeyPoints cap = keyPoints) \<and>
         (\<exists>f. fullSummaryMatch (encode title keyPoints prose) = Some f \<and> trim f = prose)"
proof -
  let ?sec = "[LF] @ join [LF] (map (\<lambda>point. [dash, space] @ point) keyPoints)"
  let ?rest = "?sec @ LF # LF # prose"
  have shape: "encode title keyPoints prose = title @ LF # LF # marker @ ?rest"
    by (simp add: encode_def blank_def)
  from k have g: "\<forall>p\<in>set keyPoints. good_point p" by (simp add: good_point_def)
  have title: "titleMatch (encode title keyPoints prose) = Some title"
    unfolding shape titleMatch_def by (rule lazy_line_first [OF t1])
  have cap: "lazy_until_blank ?rest = (if keyPoints = [] then [] else concat (map bullet keyPoints))"
  proof (cases "keyPoints = []")
    case True
    then show ?thesis using lazy_until_blank_stop [of "[]" "LF # prose"]
      by (simp add: includes_blank_simps del: lazy_until_blank.simps)
  next
    case False
    then have "?rest = concat (map bullet keyPoints) @ LF # LF # prose"
      using section_concat [OF False] by simp
    moreover have "lazy_until_blank (concat (map bullet keyPoints) @ LF # LF # prose)
                   = concat (map bullet keyPoints)"
      using section_no_blank [OF g] False by (intro lazy_until_blank_stop) auto
    ultimately show ?thesis using False by simp
  qed
  have kp: "extractKeyPoints (lazy_until_blank ?rest) = keyPoints"
  proof (cases "keyPoints = []")
    case True
    then show ?thesis unfolding cap by (simp add: extractKeyPoints_def trim_def)
  next
    case False
    then show ?thesis unfolding cap
      using extract_section [OF g, of "[]"] by (simp add: trim_LF)
  qed
  have full: "\<exists>f. lazy_skip_blank ?rest = Some f \<and> trim f = prose"
  proof (cases "keyPoints = []")
    case True
    then show ?thesis using lazy_skip_blank_stop [of "[]" "LF # prose"] trim_LF_prose [OF p]
      by (simp add: includes_blank_simps del: lazy_skip_blank.simps)
  next
    case False
    then have "?rest = concat (map bullet keyPoints) @ LF # LF # prose"
      using section_concat [OF False] by simp
    moreover have "lazy_skip_blank (concat (map bullet keyPoints) @ LF # LF # prose) = Some prose"
      using section_no_blank [OF g] False by (intro lazy_skip_blank_stop) auto
    ultimately show ?thesis using p by simp
  qed
  then obtain f where f: "lazy_skip_blank ?rest = Some f" "trim f = prose" by blast
  have "keyPointsMatch (encode title keyPoints prose) = Some (lazy_until_blank ?rest)"
    unfolding shape by (rule keyPointsMatch_encoded [OF t3])
  with kp obtain cap where km: "keyPointsMatch (encode title keyPoints prose) = Some cap"
    and ex: "extractKeyPoints cap = keyPoints" by blast
  have fm: "fullSummaryMatch (encode title keyPoints prose) = Some f"
    unfolding shape by (rule fullSummaryMatch_encoded [OF t3 f(1)])
  from title km ex fm f(2) show ?thesis by blast
qed

lemma decode_existing_encoded:
  assumes "\<forall>c\<in>set title. \<not> isLineTerminator c" and "trim title = title"
    and "\<not> includes_ci marker title"
    and "\<forall>p\<in>set keyPoints. p \<noteq> [] \<and> trim p = p \<and> dash \<notin> set p \<and> \<not> js_includes blank p"
    and "trim prose = prose"
  shows "decode_existing defaultTitle (encode title keyPoints prose) =
           \<lparr>d_title = title, d_keyPoints = keyPoints, d_fullSummary = prose\<rparr>"
proof -
  from encoded_matches [OF assms(1) assms(3) assms(4) assms(5)]
  obtain cap f where "titleMatch (encode title keyPoints prose) = Some title"
    and "keyPointsMatch (encode title keyPoints prose) = Some cap"
    and "extractKeyPoints cap = keyPoints"
    and "fullSummaryMatch (encode title keyPoints prose) = Some f" and "trim f = prose"
    by blast
  then show ?thesis by (simp add: decode_existing_def assms(2))
qed


section \<open>Lemmas on the sample data\<close>

lemma sample_request_fields:
  "g_user (sample_request uid) = Some uid"
  "g_content (sample_request uid) = Some (js ''Hello there.'')"
  "js ''Hello there.'' \<noteq> []"
  "g_metadata (sample_request uid) = Some sample_metadata"
  "m_videoId sample_metadata = Some (js ''abc'')"
  "js ''abc'' \<noteq> []"
  by (simp_all add: sample_request_def sample_metadata_def js_def)

lemma sample_url_eq: "videoUrlOf (m_url sample_metadata) (js ''abc'') = sample_url"
  by (simp add: videoUrlOf_def sample_metadata_def or_else_def sample_url_def js_def)

lemma sample_url_default: "js ''https://www.youtube.com/watch?v='' @ js ''abc'' = sample_url"
  by (simp add: sample_url_def js_def)


lemma sample_save_fields:
  "sv_videoId sample_save = Some (js ''abc'')"
  "sv_title sample_save = Some (js ''Talk'')" "js ''Talk'' \<noteq> []"
  "sv_fullSummary sample_save = Some (js ''Body.'')" "js ''Body.'' \<noteq> []"
  "sv_keyPoints sample_save = Some [js ''one'']"
  "sv_sourceUrl sample_save = None" "sv_transcript sample_save = None"
  by (simp_all add: sample_save_def js_def)

lemma sample_save_back_fields:
  "sv_videoId sample_save_back = Some (js ''abc'')"
  "sv_title sample_save_back = Some (js ''Talk'')"
  "sv_fullSummary sample_save_back = Some (js ''Body.'')"
  "sv_keyPoints sample_save_back = Some [js ''one'']"
  "sv_sourceUrl sample_save_back = Some sample_url" "sv_transcript sample_save_back = None"
  by (simp_all add: sample_save_back_def sample_save_def)

lemma sample_save_url: "videoUrlOf (sv_sourceUrl sample_save) (js ''abc'') = sample_url"
  by (simp add: videoUrlOf_def sample_save_def or_else_def sample_url_def js_def)

lemma failing_fails: "fails (failing cs i t) c \<longleftrightarrow> c \<in> set cs"
  "new_id (failing cs i t) = i" "now (failing cs i t) = t"
  by (simp_all add: failing_def)

lemma sample_row_fields:
  "s_id (sample_row i uid) = i" "s_userId (sample_row i uid) = uid"
  "s_videoUrl (sample_row i uid) = sample_url" "s_createdAt (sample_row i uid) = 10"
  "s_summary (sample_row i uid) = encode (js ''Talk'') [js ''one''] (js ''Body.'')"
  by (simp_all add: sample_row_def)





lemma findUser_sample:
  "findUser uid \<lparr>users = [sample_user uid email credits], summaries = rows\<rparr>
     = Some (sample_user uid email credits)"
  by (simp add: findUser_def sample_user_def)

lemma sample_user_fields:
  "u_id (sample_user uid email credits) = uid"
  "u_credits (sample_user uid email credits) = credits"
  "u_email (sample_user uid email credits) = email"
  by (simp_all add: sample_user_def)

lemma debit_sample: "debit uid (sample_user uid email credits) = sample_user uid email (credits - 1)"
  by (simp add: debit_def sample_user_def)


text \<open>The sample summary meets the conditions of the round trip.\<close>

lemma sample_text_conditions:
  "\<forall>c\<in>set (js ''Talk''). \<not> isLineTerminator c" "trim (js ''Talk'') = js ''Talk''"
  "\<not> includes_ci marker (js ''Talk'')"
  "\<forall>p\<in>set [js ''one'']. p \<noteq> [] \<and> trim p = p \<and> dash \<notin> set p \<and> \<not> js_includes blank p"
  "trim (js ''Body.'') = js ''Body.''"
  "\<not> includes_ci marker (js ''Just text'')"
  by (simp_all add: js_def isLineTerminator_def trim_def isWhiteSpace_def includes_ci_def
      marker_def eq_ci_def canonicalize_def dash_def js_includes_def blank_def LF_def)


lemma sample_generated:
  "d_fullSummary (generateSummary (js ''Hello there.'') (Some sample_metadata)) \<noteq> []"
  by (simp add: sample_summary sample_summary_nonempty)

lemma sample_v2_first:
  "generate_v2 generateSummary (failing [] 7 1000) (sample_request 11)
       \<lparr>users = [sample_user 11 (js ''a'') 10], summaries = []\<rparr> =
     (reply 200 (Generated
         \<lparr>d_title = js ''Talk'', d_keyPoints = [], d_fullSummary = js ''This video discusses ''\<rparr>
         None sample_url None (Some False) 9),
      \<lparr>users = [sample_user 11 (js ''a'') 9], summaries = []\<rparr>)"
  using generate_v2_new [where gen = generateSummary and e = "failing [] 7 1000"
      and d = "\<lparr>users = [sample_user 11 (js ''a'') 10], summaries = []\<rparr>"
      and u = "sample_user 11 (js ''a'') 10",
      OF sample_request_fields _ _ _ findUser_sample _ sample_generated]
  by (simp add: failing_fails sample_url_eq sample_user_fields sample_summary debit_sample)

lemma sample_v2_second:
  "generate_v2 generateSummary (failing [] 8 2000) (sample_request 11)
       \<lparr>users = [sample_user 11 (js ''a'') 9], summaries = []\<rparr> =
     (reply 200 (Generated
         \<lparr>d_title = js ''Talk'', d_keyPoints = [], d_fullSummary = js ''This video discusses ''\<rparr>
         None sample_url None (Some False) 8),
      \<lparr>users = [sample_user 11 (js ''a'') 8], summaries = []\<rparr>)"
  using generate_v2_new [where gen = generateSummary and e = "failing [] 8 2000"
      and d = "\<lparr>users = [sample_user 11 (js ''a'') 9], summaries = []\<rparr>"
      and u = "sample_user 11 (js ''a'') 9",
      OF sample_request_fields _ _ _ findUser_sample _ sample_generated]
  by (simp add: failing_fails sample_url_eq sample_user_fields sample_summary debit_sample)

lemma sample_v1_generated:
  "generate_v1 generateSummary (failing cs i t) (sample_request 11)
       \<lparr>users = [sample_user 11 (js ''a'') credits], summaries = []\<rparr> =
     (reply 200 (Generated
         \<lparr>d_title = js ''Talk'', d_keyPoints = [], d_fullSummary = js ''This video discusses ''\<rparr>
         None sample_url None None (max 0 (credits - 1))),
      \<lparr>users = [sample_user 11 (js ''a'') credits], summaries = []\<rparr>)"
  if "UserFindUnique \<notin> set cs"
  using generate_v1_generated [where gen = generateSummary and e = "failing cs i t"
      and d = "\<lparr>users = [sample_user 11 (js ''a'') credits], summaries = []\<rparr>"
      and u = "sample_user 11 (js ''a'') credits",
      OF sample_request_fields _ _ findUser_sample sample_generated] that
  by (simp add: failing_fails sample_url_eq sample_user_fields sample_summary)

lemma sample_data_fields:
  "c_userId (sample_data uid) = uid" "c_title (sample_data uid) = Some (js ''Talk'')"
  "c_videoId (sample_data uid) = Some (js ''abc'')"
  by (simp_all add: sample_data_def)

lemma sample_data_stored:
  "createAndDebit (failing [] 7 1000) (sample_data 11)
       \<lparr>users = [sample_user 11 (js ''a'') 10], summaries = []\<rparr> =
     Some ((sample_row 7 11)\<lparr>s_createdAt := 1000\<rparr>,
           \<lparr>users = [sample_user 11 (js ''a'') 9],
              summaries = [(sample_row 7 11)\<lparr>s_createdAt := 1000\<rparr>]\<rparr>)"
  using createAndDebit_ok [where e = "failing [] 7 1000" and dat = "sample_data 11"
      and d = "\<lparr>users = [sample_user 11 (js ''a'') 10], summaries = []\<rparr>",
      OF _ _ _ sample_data_fields(2,3)]
  by (simp add: failing_fails findUser_sample debit_sample sample_data_def sample_row_def)

section \<open>The codec: round trip and degradation\<close>

text \<open>
  C1 (as amended). Decoding an encoded summary gives back the title, the key points and
  the prose when the title has no line terminator, no white space at either end and no
  ``Key Points:'' in any letter case, every key point is not empty, has no white space
  at either end, no dash and no empty line, and the prose has no white space at either
  end. The list of key points may be empty.
\<close>

theorem roundtrip:
  assumes t1: "\<forall>c\<in>set title. \<not> isLineTerminator c" and t2: "trim title = title"
    and t3: "\<not> includes_ci marker title"
    and k: "\<forall>p\<in>set keyPoints. p \<noteq> [] \<and> trim p = p \<and> dash \<notin> set p \<and> \<not> js_includes blank p"
    and p: "trim prose = prose"
  shows "decode (encode title keyPoints prose) =
           \<lparr>d_title = title, d_keyPoints = keyPoints, d_fullSummary = prose\<rparr>"
proof -
  from encoded_matches [OF t1 t3 k p]
  obtain cap f where "titleMatch (encode title keyPoints prose) = Some title"
    and "keyPointsMatch (encode title keyPoints prose) = Some cap"
    and "extractKeyPoints cap = keyPoints"
    and "fullSummaryMatch (encode title keyPoints prose) = Some f" and "trim f = prose"
    by blast
  then show ?thesis by (simp add: decode_def t2)
qed

text \<open>
  The example of the specification: the encoding of \<^verbatim>\<open>("My Video", ["point one", "point two"], "Full text.")\<close>
  is the string given there, and decoding it returns the triple.
\<close>

theorem roundtrip_witness:
  "encode (js ''My Video'') [js ''point one'', js ''point two''] (js ''Full text.'')
     = js ''My Video\<newline>\<newline>Key Points:\<newline>- point one\<newline>- point two\<newline>\<newline>Full text.''
   \<and> decode (js ''My Video\<newline>\<newline>Key Points:\<newline>- point one\<newline>- point two\<newline>\<newline>Full text.'')
     = \<lparr>d_title = js ''My Video'', d_keyPoints = [js ''point one'', js ''point two''],
        d_fullSummary = js ''Full text.''\<rparr>"
proof -
  have e: "encode (js ''My Video'') [js ''point one'', js ''point two''] (js ''Full text.'')
     = js ''My Video\<newline>\<newline>Key Points:\<newline>- point one\<newline>- point two\<newline>\<newline>Full text.''"
    by (simp add: encode_def js_def marker_def blank_def LF_def dash_def space_def)
  have 1: "\<forall>c\<in>set (js ''My Video''). \<not> isLineTerminator c"
    by (simp add: js_def isLineTerminator_def)
  have 2: "trim (js ''My Video'') = js ''My Video''"
    by (simp add: js_def trim_def isWhiteSpace_def)
  have 3: "\<not> includes_ci marker (js ''My Video'')"
    by (simp add: includes_ci_def js_def marker_def eq_ci_def canonicalize_def)
  have 4: "\<forall>p\<in>set [js ''point one'', js ''point two''].
             p \<noteq> [] \<and> trim p = p \<and> dash \<notin> set p \<and> \<not> js_includes blank p"
    by (simp add: js_def trim_def isWhiteSpace_def dash_def js_includes_def blank_def LF_def)
  have 5: "trim (js ''Full text.'') = js ''Full text.''"
    by (simp add: js_def trim_def isWhiteSpace_def)
  from roundtrip [OF 1 2 3 4 5] e show ?thesis by simp
qed

text \<open>
  Without those conditions the round trip fails, each time with a title that has no line
  feed and a list of one key point: a key point with a dash comes back as two; a title
  with a leading space, a title with a carriage return and a title that is the marker in
  lower case are not returned; a key point with a leading space, an empty key point and a
  key point with an empty line are not returned; prose with a trailing space is not
  returned.
\<close>

theorem roundtrip_counterexample:
  "LF \<notin> set (js ''T'') \<and> [js ''a-b''] \<noteq> [] \<and>
   decode (encode (js ''T'') [js ''a-b''] (js ''P''))
     = \<lparr>d_title = js ''T'', d_keyPoints = [js ''a'', js ''b''], d_fullSummary = js ''P''\<rparr> \<and>
   decode (encode (js ''T'') [js ''a-b''] (js ''P''))
     \<noteq> \<lparr>d_title = js ''T'', d_keyPoints = [js ''a-b''], d_fullSummary = js ''P''\<rparr> \<and>
   LF \<notin> set (js '' T'') \<and>
   d_title (decode (encode (js '' T'') [js ''a''] (js ''P''))) = js ''T'' \<and>
   LF \<notin> set [0x54, 0x0D] \<and>
   d_title (decode (encode [0x54, 0x0D] [js ''a''] (js ''P''))) = [] \<and>
   LF \<notin> set (js ''key points:'') \<and>
   d_keyPoints (decode (encode (js ''key points:'') [js ''a''] (js ''P''))) = [] \<and>
   d_keyPoints (decode (encode (js ''T'') [js '' a''] (js ''P''))) = [js ''a''] \<and>
   d_keyPoints (decode (encode (js ''T'') [[]] (js ''P''))) = [] \<and>
   d_keyPoints (decode (encode (js ''T'') [js ''a\<newline>\<newline>b''] (js ''P''))) = [js ''a''] \<and>
   d_fullSummary (decode (encode (js ''T'') [js ''a''] (js ''P ''))) = js ''P''"
  by (simp add: codec_eval)

text \<open>
  C2 (as amended). On an input without ``Key Points:'' in any letter case the read paths
  return no key points and the whole input as prose. The title is the trimmed text
  before the first line feed when no other line terminator comes before it, and empty
  when the input has no line feed or another line terminator comes first.
\<close>

theorem decode_without_marker:
  assumes "\<not> includes_ci marker s"
  shows "d_keyPoints (decode s) = [] \<and> d_fullSummary (decode s) = s \<and>
         (LF \<notin> set s \<longrightarrow> d_title (decode s) = []) \<and>
         (\<forall>t r. s = t @ LF # r \<and> (\<forall>c\<in>set t. \<not> isLineTerminator c) \<longrightarrow>
                d_title (decode s) = trim t) \<and>
         (\<forall>t r. s = t @ LF # r \<and> LF \<notin> set t \<and> (\<exists>c\<in>set t. isLineTerminator c) \<longrightarrow>
                d_title (decode s) = [])"
proof -
  from assms have k: "keyPointsMatch s = None" by (simp add: keyPointsMatch_None)
  have d: "decode s = \<lparr>d_title = (case lazy_line s of Some t \<Rightarrow> trim t | None \<Rightarrow> []),
                       d_keyPoints = [], d_fullSummary = s\<rparr>"
    by (simp add: decode_def k titleMatch_def)
  show ?thesis
    unfolding d by (auto simp: lazy_line_no_LF lazy_line_first lazy_line_terminator)
qed

text \<open>Three inputs, one for each case of the title.\<close>

theorem decode_without_marker_witness:
  "d_keyPoints (decode (js ''hello\<newline>world'')) = [] \<and>
   d_fullSummary (decode (js ''hello\<newline>world'')) = js ''hello\<newline>world'' \<and>
   d_title (decode (js ''hello\<newline>world'')) = js ''hello'' \<and>
   d_title (decode (js ''plain text'')) = [] \<and>
   d_title (decode [0x61, 0x0D, 0x62, 0x0A, 0x63]) = []"
proof -
  have 1: "\<not> includes_ci marker (js ''hello\<newline>world'')"
    by (simp add: includes_ci_def js_def marker_def eq_ci_def canonicalize_def)
  have 2: "\<not> includes_ci marker (js ''plain text'')"
    by (simp add: includes_ci_def js_def marker_def eq_ci_def canonicalize_def)
  have 3: "\<not> includes_ci marker [0x61, 0x0D, 0x62, 0x0A, 0x63]"
    by (simp add: includes_ci_def js_def marker_def eq_ci_def canonicalize_def)
  have s1: "js ''hello\<newline>world'' = js ''hello'' @ LF # js ''world''"
    by (simp add: js_def LF_def)
  have t1: "\<forall>c\<in>set (js ''hello''). \<not> isLineTerminator c"
    by (simp add: js_def isLineTerminator_def)
  have tr: "trim (js ''hello'') = js ''hello''"
    by (simp add: js_def trim_def isWhiteSpace_def)
  have n2: "LF \<notin> set (js ''plain text'')"
    by (simp add: js_def LF_def)
  have s3: "[0x61, 0x0D, 0x62, 0x0A, 0x63] = [0x61, 0x0D, 0x62] @ LF # [0x63]"
    by (simp add: LF_def)
  have t3: "LF \<notin> set [0x61, 0x0D, 0x62 :: code_unit] \<and> (\<exists>c\<in>set [0x61, 0x0D, 0x62 :: code_unit]. isLineTerminator c)"
    by (simp add: LF_def isLineTerminator_def)
  from decode_without_marker [OF 1] s1 t1 tr
  have a: "d_keyPoints (decode (js ''hello\<newline>world'')) = []"
    "d_fullSummary (decode (js ''hello\<newline>world'')) = js ''hello\<newline>world''"
    "d_title (decode (js ''hello\<newline>world'')) = js ''hello''"
    by metis+
  from decode_without_marker [OF 2] n2
  have b: "d_title (decode (js ''plain text'')) = []" by blast
  from decode_without_marker [OF 3] s3 t3
  have c: "d_title (decode [0x61, 0x0D, 0x62, 0x0A, 0x63]) = []" by blast
  from a b c show ?thesis by simp
qed

text \<open>
  The title is not always empty, and the test for key points ignores letter case:
  two inputs that do not contain the marker as written.
\<close>

theorem decode_without_marker_counterexample:
  "\<not> js_includes marker (js ''hello\<newline>world'') \<and>
   d_title (decode (js ''hello\<newline>world'')) = js ''hello'' \<and>
   d_title (decode (js ''hello\<newline>world'')) \<noteq> [] \<and>
   \<not> js_includes marker (js ''key points: a'') \<and>
   d_keyPoints (decode (js ''key points: a'')) = [js ''a''] \<and>
   d_keyPoints (decode (js ''key points: a'')) \<noteq> []"
  by (simp add: codec_eval)

section \<open>The generation adapter on a short transcript\<close>

text \<open>
  C6 (as amended). On a transcript of fewer than 100 code units, with any metadata and
  any provider, both service files return a summary whose \<^verbatim>\<open>fullSummary\<close> is not empty,
  and the OpenAI one returns exactly its local fallback. The key points are empty exactly
  when no fragment between the delimiters has more than 20 code units after trimming.
  The functions are total: nothing is thrown to the caller.
\<close>

theorem generate_short_transcript:
  assumes "length transcript < 100"
  shows "generateSummary_openai provider transcript md = fallbackSummary (titleOf md) transcript \<and>
         d_fullSummary (generateSummary_openai provider transcript md) \<noteq> [] \<and>
         d_fullSummary (generateSummary transcript md) \<noteq> [] \<and>
         (d_keyPoints (generateSummary_openai provider transcript md) = []) = (sentencesOf transcript = []) \<and>
         (d_keyPoints (generateSummary transcript md) = []) = (sentencesOf transcript = [])"
  using short_takes_fallback [OF assms, of provider md]
  by (simp add: fullSummary_generateSummary fullSummary_fallbackSummary
      keyPoints_generateSummary keyPoints_fallbackSummary)

text \<open>The transcript \<^verbatim>\<open>"Hi."\<close>: the fixed sentences, and no key point.\<close>

theorem generate_short_transcript_witness:
  "d_fullSummary (generateSummary_openai (\<lambda>t s. None) (js ''Hi.'') None)
     = summaryHeading @ js ''Summary not available.'' \<and>
   d_fullSummary (generateSummary (js ''Hi.'') None) = js ''This video discusses '' \<and>
   d_keyPoints (generateSummary_openai (\<lambda>t s. None) (js ''Hi.'') None) = [] \<and>
   d_keyPoints (generateSummary (js ''Hi.'') None) = []"
proof -
  have l: "length (js ''Hi.'') < 100" by (simp add: js_def)
  have s: "sentencesOf (js ''Hi.'') = []" by (simp add: adapter_eval)
  have f: "d_fullSummary (fallbackSummary (titleOf None) (js ''Hi.''))
             = summaryHeading @ js ''Summary not available.''"
    by (simp add: fallbackSummary_def Let_def s or_else_def)
  have ne: "js ''This video discusses '' \<noteq> []" by (simp add: js_def)
  have g: "d_fullSummary (generateSummary (js ''Hi.'') None) = js ''This video discusses ''"
    by (simp add: generateSummary_def Let_def s ne or_else_def removeDuplicates_def)
  note t = generate_short_transcript [OF l, of "\<lambda>t s. None" None]
  from t have e: "generateSummary_openai (\<lambda>t s. None) (js ''Hi.'') None
                    = fallbackSummary (titleOf None) (js ''Hi.'')" by blast
  from t s have k: "d_keyPoints (generateSummary_openai (\<lambda>t s. None) (js ''Hi.'') None) = []"
    "d_keyPoints (generateSummary (js ''Hi.'') None) = []" by blast+
  show ?thesis by (simp only: k g) (simp only: e f)
qed

text \<open>The empty transcript has length 0 and gets an empty list of key points from both.\<close>

theorem generate_short_transcript_counterexample:
  "length ([] :: jsstring) < 100 \<and>
   d_keyPoints (generateSummary [] None) = [] \<and>
   d_keyPoints (generateSummary_openai (\<lambda>t s. None) [] None) = []"
  by (simp add: adapter_eval)

section \<open>Generating twice\<close>

text \<open>
  C3 (as amended). Second variant of the routes; a well-formed request, no rejected call,
  no stored row of the account for the video URL, a known account with a positive
  balance, a generated \<^verbatim>\<open>fullSummary\<close> that is not empty. Generate debits one credit and
  stores no row; the save route, called with the \<^verbatim>\<open>sourceUrl\<close> that generate returned,
  stores the row; a second generate call is then answered from that row, with
  \<^verbatim>\<open>alreadySaved\<close> true, and changes nothing: one credit in total. Without the save in
  between, and with two credits or more, the second generate call generates and debits
  again: two credits in total, and still no row.
\<close>

theorem generate_twice:
  fixes gen e1 e2 e3 req save d uid content md videoId u svideoId stitle skeyPoints sfullSummary
  defines "url \<equiv> (case m_url md of
                      None \<Rightarrow> js ''https://www.youtube.com/watch?v='' @ videoId
                    | Some v \<Rightarrow> if v = [] then js ''https://www.youtube.com/watch?v='' @ videoId else v)"
    and "summary \<equiv> gen content (Some md)"
    and "once \<equiv> d\<lparr>users := map (debit uid) (users d)\<rparr>"
    and "twice \<equiv> d\<lparr>users := map (debit uid) (map (debit uid) (users d))\<rparr>"
  defines "row \<equiv> \<lparr>s_id = new_id e2, s_userId = uid, s_title = stitle, s_videoId = svideoId,
                    s_videoUrl = url, s_transcript = or_else (sv_transcript save) [],
                    s_summary = encode stitle skeyPoints sfullSummary, s_createdAt = now e2\<rparr>"
  defines "saved \<equiv> \<lparr>users = map (debit uid) (users d), summaries = summaries d @ [row]\<rparr>"
  assumes req: "g_user req = Some uid" "g_content req = Some content" "content \<noteq> []"
      "g_metadata req = Some md" "m_videoId md = Some videoId" "videoId \<noteq> []"
    and ok1: "\<forall>c. \<not> fails e1 c" and ok2: "\<forall>c. \<not> fails e2 c" and ok3: "\<forall>c. \<not> fails e3 c"
    and fresh: "\<forall>x\<in>set (summaries d). s_videoUrl x = url \<longrightarrow> s_userId x \<noteq> uid"
    and user: "findUser uid d = Some u" and credit: "0 < u_credits u"
    and gen: "d_fullSummary summary \<noteq> []"
    and save: "sv_videoId save = Some svideoId" "svideoId \<noteq> []"
      "sv_title save = Some stitle" "stitle \<noteq> []"
      "sv_fullSummary save = Some sfullSummary" "sfullSummary \<noteq> []"
      "sv_keyPoints save = Some skeyPoints" "sv_sourceUrl save = Some url"
  shows "generate_v2 gen e1 req d =
           (reply 200 (Generated summary None url None (Some False) (max 0 (u_credits u - 1))), once) \<and>
         save_v2 e2 uid save once = (reply 200 (Saved (new_id e2) (now e2) (Some True)), saved) \<and>
         (\<exists>c. generate_v2 gen e3 req saved =
                 (reply 200 (Existing c url (new_id e2) (now e2) (Some True)), saved) \<and>
               ((\<forall>c\<in>set stitle. \<not> isLineTerminator c) \<and> trim stitle = stitle \<and>
                \<not> includes_ci marker stitle \<and>
                (\<forall>p\<in>set skeyPoints. p \<noteq> [] \<and> trim p = p \<and> dash \<notin> set p \<and>
                                       \<not> js_includes blank p) \<and>
                trim sfullSummary = sfullSummary \<longrightarrow>
                c = \<lparr>d_title = stitle, d_keyPoints = skeyPoints, d_fullSummary = sfullSummary\<rparr>)) \<and>
         map_option u_credits (findUser uid saved) = Some (u_credits u - 1) \<and>
         (2 \<le> u_credits u \<longrightarrow>
            generate_v2 gen e2 req once =
              (reply 200 (Generated summary None url None (Some False) (max 0 (u_credits u - 2))), twice) \<and>
            summaries twice = summaries d \<and>
            map_option u_credits (findUser uid twice) = Some (u_credits u - 2))"
proof -
  have s_eq: "gen content (Some md) = summary" by (simp add: summary_def)
  have u_eq: "videoUrlOf (m_url md) videoId = url" by (simp add: url_def videoUrlOf_cases)
  have url_ne: "url \<noteq> []" using videoUrlOf_nonempty [of "m_url md" videoId] by (simp add: u_eq)
  have su_eq: "videoUrlOf (sv_sourceUrl save) svideoId = url"
    by (simp add: save(8) videoUrlOf_given [OF url_ne])
  have g: "d_fullSummary (gen content (Some md)) \<noteq> []" using gen by (simp add: s_eq)
  have fresh1: "find (\<lambda>x. s_videoUrl x = videoUrlOf (m_url md) videoId \<and> s_userId x = uid)
                  (summaries d) = None"
    using fresh by (intro find_none) (auto simp: u_eq)
  have a: "generate_v2 gen e1 req d =
             (reply 200 (Generated summary None url None (Some False) (max 0 (u_credits u - 1))), once)"
    using generate_v2_new [where gen = gen and e = e1, OF req _ _ fresh1 user credit g] ok1
    by (simp add: s_eq u_eq once_def)
  have ua: "findUser uid once = Some (debit uid u)"
    by (simp add: once_def findUser_debit user)
  have ca: "u_credits (debit uid u) = u_credits u - 1" by (rule credits_debit [OF user])
  have fresh2: "find (\<lambda>x. s_videoUrl x = videoUrlOf (sv_sourceUrl save) svideoId \<and> s_userId x = uid)
                  (summaries once) = None"
    using fresh by (intro find_none) (auto simp: su_eq once_def)
  have "findUser uid once \<noteq> None" by (simp add: ua)
  from save_v2_new [where e = e2 and d = once, OF save(1-7) _ _ fresh2 this] ok2
  have b: "save_v2 e2 uid save once = (reply 200 (Saved (new_id e2) (now e2) (Some True)), saved)"
    by (simp add: su_eq saved_def row_def once_def)
  have ur: "s_videoUrl row = url" "s_userId row = uid" "s_id row = new_id e2"
    "s_createdAt row = now e2" "s_summary row = encode stitle skeyPoints sfullSummary"
    by (simp_all add: row_def)
  have "\<forall>x\<in>set (summaries d). \<not> (s_videoUrl x = url \<and> s_userId x = uid)"
    using fresh by auto
  then have "find (\<lambda>x. s_videoUrl x = url \<and> s_userId x = uid) (summaries d @ row # []) = Some row"
    by (rule find_earliest) (simp add: ur)
  then have found: "find (\<lambda>x. s_videoUrl x = videoUrlOf (m_url md) videoId \<and> s_userId x = uid)
                      (summaries saved) = Some row"
    by (simp add: u_eq saved_def)
  from generate_v2_existing [where gen = gen and e = e3, OF req _ found] ok3
  have c: "generate_v2 gen e3 req saved =
             (reply 200 (Existing (decode_existing (or_else (m_title md) (js ''Video Summary''))
                                     (encode stitle skeyPoints sfullSummary))
                           url (new_id e2) (now e2) (Some True)), saved)"
    by (simp add: existingReply_def ur)
  have third: "\<exists>c. generate_v2 gen e3 req saved =
                 (reply 200 (Existing c url (new_id e2) (now e2) (Some True)), saved) \<and>
               ((\<forall>c\<in>set stitle. \<not> isLineTerminator c) \<and> trim stitle = stitle \<and>
                \<not> includes_ci marker stitle \<and>
                (\<forall>p\<in>set skeyPoints. p \<noteq> [] \<and> trim p = p \<and> dash \<notin> set p \<and>
                                       \<not> js_includes blank p) \<and>
                trim sfullSummary = sfullSummary \<longrightarrow>
                c = \<lparr>d_title = stitle, d_keyPoints = skeyPoints, d_fullSummary = sfullSummary\<rparr>)"
    using c decode_existing_encoded [of stitle skeyPoints sfullSummary] by blast
  have "findUser uid saved = findUser uid once" by (simp add: findUser_def saved_def once_def)
  then have credits: "map_option u_credits (findUser uid saved) = Some (u_credits u - 1)"
    by (simp add: ua ca)
  have again: "generate_v2 gen e2 req once =
              (reply 200 (Generated summary None url None (Some False) (max 0 (u_credits u - 2))), twice) \<and>
            summaries twice = summaries d \<and>
            map_option u_credits (findUser uid twice) = Some (u_credits u - 2)"
    if two: "2 \<le> u_credits u"
  proof -
    have fresh3: "find (\<lambda>x. s_videoUrl x = videoUrlOf (m_url md) videoId \<and> s_userId x = uid)
                    (summaries once) = None"
      using fresh1 by (simp add: once_def)
    have pos: "0 < u_credits (debit uid u)" using two ca by simp
    have b2: "generate_v2 gen e2 req once =
               (reply 200 (Generated summary None url None (Some False) (max 0 (u_credits u - 2))), twice)"
      using generate_v2_new [where gen = gen and e = e2, OF req _ _ fresh3 ua pos g] ok2
      by (simp add: ca s_eq u_eq once_def twice_def)
    have "twice = once\<lparr>users := map (debit uid) (users once)\<rparr>"
      by (simp add: once_def twice_def)
    then have ub: "findUser uid twice = Some (debit uid (debit uid u))"
      using findUser_debit [of uid once] by (simp add: ua)
    have cb: "u_credits (debit uid (debit uid u)) = u_credits u - 2"
      using credits_debit [OF ua] ca by simp
    from b2 ub cb show ?thesis by (simp add: twice_def)
  qed
  from a b third credits again show ?thesis by blast
qed

text \<open>
  An account with 10 credits and an empty store: generate, save, generate; and generate
  twice without the save.
\<close>

theorem generate_twice_witness:
  "generate_v2 generateSummary (failing [] 7 1000) (sample_request 11)
       \<lparr>users = [sample_user 11 (js ''a'') 10], summaries = []\<rparr> =
     (reply 200 (Generated
         \<lparr>d_title = js ''Talk'', d_keyPoints = [], d_fullSummary = js ''This video discusses ''\<rparr>
         None sample_url None (Some False) 9),
      \<lparr>users = [sample_user 11 (js ''a'') 9], summaries = []\<rparr>) \<and>
   save_v2 (failing [] 8 2000) 11 sample_save_back
       \<lparr>users = [sample_user 11 (js ''a'') 9], summaries = []\<rparr> =
     (reply 200 (Saved 8 2000 (Some True)),
      \<lparr>users = [sample_user 11 (js ''a'') 9],
         summaries = [(sample_row 8 11)\<lparr>s_createdAt := 2000\<rparr>]\<rparr>) \<and>
   generate_v2 generateSummary (failing [] 9 3000) (sample_request 11)
       \<lparr>users = [sample_user 11 (js ''a'') 9],
          summaries = [(sample_row 8 11)\<lparr>s_createdAt := 2000\<rparr>]\<rparr> =
     (reply 200 (Existing
         \<lparr>d_title = js ''Talk'', d_keyPoints = [js ''one''], d_fullSummary = js ''Body.''\<rparr>
         sample_url 8 2000 (Some True)),
      \<lparr>users = [sample_user 11 (js ''a'') 9],
         summaries = [(sample_row 8 11)\<lparr>s_createdAt := 2000\<rparr>]\<rparr>) \<and>
   generate_v2 generateSummary (failing [] 8 2000) (sample_request 11)
       \<lparr>users = [sample_user 11 (js ''a'') 9], summaries = []\<rparr> =
     (reply 200 (Generated
         \<lparr>d_title = js ''Talk'', d_keyPoints = [], d_fullSummary = js ''This video discusses ''\<rparr>
         None sample_url None (Some False) 8),
      \<lparr>users = [sample_user 11 (js ''a'') 8], summaries = []\<rparr>)"
proof -
  let ?d = "\<lparr>users = [sample_user 11 (js ''a'') 10], summaries = []\<rparr>"
  have row: "\<lparr>s_id = 8, s_userId = 11, s_title = js ''Talk'', s_videoId = js ''abc'',
               s_videoUrl = sample_url, s_transcript = [],
               s_summary = encode (js ''Talk'') [js ''one''] (js ''Body.''), s_createdAt = 2000\<rparr>
             = (sample_row 8 11)\<lparr>s_createdAt := 2000\<rparr>"
    by (simp add: sample_row_def)
  have credit: "0 < u_credits (sample_user 11 (js ''a'') 10)"
    and two: "2 \<le> u_credits (sample_user 11 (js ''a'') 10)"
    by (simp_all add: sample_user_fields)
  have url: "(case m_url sample_metadata of
                None \<Rightarrow> js ''https://www.youtube.com/watch?v='' @ js ''abc''
              | Some v \<Rightarrow> if v = [] then js ''https://www.youtube.com/watch?v='' @ js ''abc'' else v)
             = sample_url"
    by (simp add: sample_metadata_def sample_url_default)
  note t = generate_twice
    [where req = "sample_request 11" and uid = 11 and content = "js ''Hello there.''"
       and md = sample_metadata and videoId = "js ''abc''" and ?e1.0 = "failing [] 7 1000"
       and ?e2.0 = "failing [] 8 2000" and ?e3.0 = "failing [] 9 3000" and d = ?d
       and u = "sample_user 11 (js ''a'') 10" and gen = generateSummary
       and save = sample_save_back and svideoId = "js ''abc''" and stitle = "js ''Talk''"
       and skeyPoints = "[js ''one'']" and sfullSummary = "js ''Body.''",
     OF sample_request_fields _ _ _ _ findUser_sample credit _
        sample_save_back_fields(1) sample_request_fields(6) sample_save_back_fields(2)
        sample_save_fields(3) sample_save_back_fields(3) sample_save_fields(5)
        sample_save_back_fields(4)]
  have t': "generate_v2 generateSummary (failing [] 7 1000) (sample_request 11) ?d =
              (reply 200 (Generated
                 \<lparr>d_title = js ''Talk'', d_keyPoints = [], d_fullSummary = js ''This video discusses ''\<rparr>
                 None sample_url None (Some False) 9),
               \<lparr>users = [sample_user 11 (js ''a'') 9], summaries = []\<rparr>) \<and>
            save_v2 (failing [] 8 2000) 11 sample_save_back
                \<lparr>users = [sample_user 11 (js ''a'') 9], summaries = []\<rparr> =
              (reply 200 (Saved 8 2000 (Some True)),
               \<lparr>users = [sample_user 11 (js ''a'') 9],
                  summaries = [(sample_row 8 11)\<lparr>s_createdAt := 2000\<rparr>]\<rparr>) \<and>
            (\<exists>c. generate_v2 generateSummary (failing [] 9 3000) (sample_request 11)
                    \<lparr>users = [sample_user 11 (js ''a'') 9],
                       summaries = [(sample_row 8 11)\<lparr>s_createdAt := 2000\<rparr>]\<rparr> =
                   (reply 200 (Existing c sample_url 8 2000 (Some True)),
                    \<lparr>users = [sample_user 11 (js ''a'') 9],
                       summaries = [(sample_row 8 11)\<lparr>s_createdAt := 2000\<rparr>]\<rparr>) \<and>
                 c = \<lparr>d_title = js ''Talk'', d_keyPoints = [js ''one''], d_fullSummary = js ''Body.''\<rparr>) \<and>
            generate_v2 generateSummary (failing [] 8 2000) (sample_request 11)
                \<lparr>users = [sample_user 11 (js ''a'') 9], summaries = []\<rparr> =
              (reply 200 (Generated
                 \<lparr>d_title = js ''Talk'', d_keyPoints = [], d_fullSummary = js ''This video discusses ''\<rparr>
                 None sample_url None (Some False) 8),
               \<lparr>users = [sample_user 11 (js ''a'') 8], summaries = []\<rparr>)"
    using t two sample_text_conditions(1-5)
    by (simp add: failing_fails url sample_user_fields sample_summary sample_summary_nonempty
        debit_sample sample_save_back_fields or_else_def row)
  then show ?thesis by auto
qed

text \<open>
  Two generate calls in a row by the same account for the same video. Second variant:
  both succeed, neither is answered from the store, and the balance goes from 10 to 8.
  First variant: both succeed and neither is answered from the store, since the
  transaction of the first call stored nothing; the balance stays at 10.
\<close>

theorem generate_twice_counterexample:
  "generate_v2 generateSummary (failing [] 7 1000) (sample_request 11)
       \<lparr>users = [sample_user 11 (js ''a'') 10], summaries = []\<rparr> =
     (reply 200 (Generated
         \<lparr>d_title = js ''Talk'', d_keyPoints = [], d_fullSummary = js ''This video discusses ''\<rparr>
         None sample_url None (Some False) 9),
      \<lparr>users = [sample_user 11 (js ''a'') 9], summaries = []\<rparr>) \<and>
   generate_v2 generateSummary (failing [] 8 2000) (sample_request 11)
       \<lparr>users = [sample_user 11 (js ''a'') 9], summaries = []\<rparr> =
     (reply 200 (Generated
         \<lparr>d_title = js ''Talk'', d_keyPoints = [], d_fullSummary = js ''This video discusses ''\<rparr>
         None sample_url None (Some False) 8),
      \<lparr>users = [sample_user 11 (js ''a'') 8], summaries = []\<rparr>) \<and>
   u_credits (sample_user 11 (js ''a'') 8) = 10 - 2 \<and>
   generate_v1 generateSummary (failing [] 7 1000) (sample_request 11)
       \<lparr>users = [sample_user 11 (js ''a'') 10], summaries = []\<rparr> =
     (reply 200 (Generated
         \<lparr>d_title = js ''Talk'', d_keyPoints = [], d_fullSummary = js ''This video discusses ''\<rparr>
         None sample_url None None 9),
      \<lparr>users = [sample_user 11 (js ''a'') 10], summaries = []\<rparr>) \<and>
   generate_v1 generateSummary (failing [] 8 2000) (sample_request 11)
       \<lparr>users = [sample_user 11 (js ''a'') 10], summaries = []\<rparr> =
     (reply 200 (Generated
         \<lparr>d_title = js ''Talk'', d_keyPoints = [], d_fullSummary = js ''This video discusses ''\<rparr>
         None sample_url None None 9),
      \<lparr>users = [sample_user 11 (js ''a'') 10], summaries = []\<rparr>)"
  using sample_v2_first sample_v2_second
    sample_v1_generated [where cs = "[]" and i = 7 and t = 1000 and credits = 10]
    sample_v1_generated [where cs = "[]" and i = 8 and t = 2000 and credits = 10]
  by (simp add: sample_user_fields)

section \<open>Generating without credit\<close>

text \<open>
  C4. An account with balance 0 and no stored row for the video. The first variant of the
  route has no test of the balance (its comment says the test is done by a
  \<^verbatim>\<open>requireCredits\<close> middleware, which the route does not install): it answers 200 with
  the generated summary and \<^verbatim>\<open>creditsRemaining\<close> 0. Its transaction rejects, because the
  create call gives no \<^verbatim>\<open>title\<close> and no \<^verbatim>\<open>videoId\<close>, so the store is unchanged. The second
  variant answers 403 and writes nothing.
\<close>

theorem generate_v1_zero_balance:
  "generate_v1 generateSummary (failing [] 7 1000) (sample_request 11)
       \<lparr>users = [sample_user 11 (js ''a'') 0], summaries = []\<rparr> =
     (reply 200 (Generated
         \<lparr>d_title = js ''Talk'', d_keyPoints = [], d_fullSummary = js ''This video discusses ''\<rparr>
         None sample_url None None 0),
      \<lparr>users = [sample_user 11 (js ''a'') 0], summaries = []\<rparr>) \<and>
   generate_v2 generateSummary (failing [] 7 1000) (sample_request 11)
       \<lparr>users = [sample_user 11 (js ''a'') 0], summaries = []\<rparr> =
     (reply 403 (Error (js ''Not enough credits to generate summary'')),
      \<lparr>users = [sample_user 11 (js ''a'') 0], summaries = []\<rparr>)"
proof -
  let ?d = "\<lparr>users = [sample_user 11 (js ''a'') 0], summaries = []\<rparr>"
  have 1: "generate_v1 generateSummary (failing [] 7 1000) (sample_request 11) ?d =
     (reply 200 (Generated
         \<lparr>d_title = js ''Talk'', d_keyPoints = [], d_fullSummary = js ''This video discusses ''\<rparr>
         None sample_url None None 0), ?d)"
    using sample_v1_generated [where cs = "[]" and credits = 0 and i = 7 and t = 1000] by simp
  have 2: "generate_v2 generateSummary (failing [] 7 1000) (sample_request 11) ?d =
     (reply 403 (Error (js ''Not enough credits to generate summary'')), ?d)"
    using generate_v2_forbidden [where gen = generateSummary and e = "failing [] 7 1000" and d = ?d
        and u = "sample_user 11 (js ''a'') 0", OF sample_request_fields _ _ _ findUser_sample]
    by (simp add: failing_fails sample_user_fields)
  from 1 2 show ?thesis by (rule conjI)
qed

section \<open>Persisting a generated summary\<close>

text \<open>
  C5 (as amended). The transaction of the first variant writes the row and the debit
  together or not at all, and writes nothing when one of its steps rejects or when the
  data of the create call lacks a required field. On the path where nothing is found in
  the store and the summary is generated, the first variant, whose create call lacks
  \<^verbatim>\<open>title\<close> and \<^verbatim>\<open>videoId\<close>, answers 200 with the summary but without \<^verbatim>\<open>id\<close> and
  \<^verbatim>\<open>createdAt\<close>, and the store is unchanged. In the second variant no row is written; the
  credit is debited, and when that update rejects the route answers 200 all the same.
\<close>

theorem generate_persistence:
  fixes gen e req d uid content md videoId u dat
  defines "url \<equiv> videoUrlOf (m_url md) videoId"
    and "summary \<equiv> gen content (Some md)"
  assumes req: "g_user req = Some uid" "g_content req = Some content" "content \<noteq> []"
      "g_metadata req = Some md" "m_videoId md = Some videoId" "videoId \<noteq> []"
    and look: "\<not> fails e SummaryFindFirst" "\<not> fails e UserFindUnique"
    and fresh: "find (\<lambda>x. s_videoUrl x = url) (summaries d) = None"
    and user: "findUser uid d = Some u"
    and gen: "d_fullSummary summary \<noteq> []"
  shows "(createAndDebit e dat d = None \<or>
          (\<exists>row. createAndDebit e dat d =
             Some (row, \<lparr>users = map (debit (c_userId dat)) (users d),
                          summaries = summaries d @ [row]\<rparr>))) \<and>
         (fails e SummaryCreate \<or> fails e UserUpdate \<or> fails e TxCommit \<or>
          c_title dat = None \<or> c_videoId dat = None \<longrightarrow> createAndDebit e dat d = None) \<and>
         generate_v1 gen e req d =
           (reply 200 (Generated summary None url None None (max 0 (u_credits u - 1))), d) \<and>
         (if u_credits u \<le> 0 then
            generate_v2 gen e req d =
              (reply 403 (Error (js ''Not enough credits to generate summary'')), d)
          else if fails e UserUpdate then
            generate_v2 gen e req d =
              (reply 200 (Generated summary None url None (Some False) (max 0 (u_credits u - 1))), d)
          else
            generate_v2 gen e req d =
              (reply 200 (Generated summary None url None (Some False) (max 0 (u_credits u - 1))),
               d\<lparr>users := map (debit uid) (users d)\<rparr>))"
proof -
  have s_eq: "gen content (Some md) = summary" by (simp add: summary_def)
  have u_eq: "videoUrlOf (m_url md) videoId = url" by (simp add: url_def)
  have fresh': "find (\<lambda>x. s_videoUrl x = videoUrlOf (m_url md) videoId) (summaries d) = None"
    using fresh by (simp add: url_def)
  have fresh2: "find (\<lambda>x. s_videoUrl x = videoUrlOf (m_url md) videoId \<and> s_userId x = uid) (summaries d) = None"
    by (rule find_weaker_None [OF fresh'])
  have g: "d_fullSummary (gen content (Some md)) \<noteq> []" using gen by (simp add: s_eq)
  have tx: "createAndDebit e dat d = None \<or>
          (\<exists>row. createAndDebit e dat d =
             Some (row, \<lparr>users = map (debit (c_userId dat)) (users d),
                          summaries = summaries d @ [row]\<rparr>))"
    by (rule createAndDebit_both_or_neither)
  have rej: "fails e SummaryCreate \<or> fails e UserUpdate \<or> fails e TxCommit \<or>
          c_title dat = None \<or> c_videoId dat = None \<longrightarrow> createAndDebit e dat d = None"
    using createAndDebit_fails [of e dat d] createAndDebit_incomplete [of dat e d] by blast
  have v1: "generate_v1 gen e req d =
           (reply 200 (Generated summary None url None None (max 0 (u_credits u - 1))), d)"
    using generate_v1_generated [where gen = gen and e = e, OF req _ look(2) user g] fresh'
    by (simp add: s_eq u_eq)
  have v2: "if u_credits u \<le> 0 then
            generate_v2 gen e req d =
              (reply 403 (Error (js ''Not enough credits to generate summary'')), d)
          else if fails e UserUpdate then
            generate_v2 gen e req d =
              (reply 200 (Generated summary None url None (Some False) (max 0 (u_credits u - 1))), d)
          else
            generate_v2 gen e req d =
              (reply 200 (Generated summary None url None (Some False) (max 0 (u_credits u - 1))),
               d\<lparr>users := map (debit uid) (users d)\<rparr>)"
  proof (cases "u_credits u \<le> 0")
    case True
    with generate_v2_forbidden [where gen = gen and e = e, OF req look fresh2 user]
    show ?thesis by simp
  next
    case False
    then have "0 < u_credits u" by simp
    from generate_v2_new [where gen = gen and e = e, OF req look fresh2 user this g] False
    show ?thesis by (simp add: s_eq u_eq)
  qed
  from tx rej v1 v2 show ?thesis by (intro conjI)
qed

text \<open>
  A rejected commit and a run without any rejection; the transaction on complete data
  writes the row and the debit.
\<close>

theorem generate_persistence_witness:
  "generate_v1 generateSummary (failing [TxCommit] 7 1000) (sample_request 11)
       \<lparr>users = [sample_user 11 (js ''a'') 10], summaries = []\<rparr> =
     (reply 200 (Generated
         \<lparr>d_title = js ''Talk'', d_keyPoints = [], d_fullSummary = js ''This video discusses ''\<rparr>
         None sample_url None None 9),
      \<lparr>users = [sample_user 11 (js ''a'') 10], summaries = []\<rparr>) \<and>
   generate_v2 generateSummary (failing [TxCommit] 7 1000) (sample_request 11)
       \<lparr>users = [sample_user 11 (js ''a'') 10], summaries = []\<rparr> =
     (reply 200 (Generated
         \<lparr>d_title = js ''Talk'', d_keyPoints = [], d_fullSummary = js ''This video discusses ''\<rparr>
         None sample_url None (Some False) 9),
      \<lparr>users = [sample_user 11 (js ''a'') 9], summaries = []\<rparr>) \<and>
   createAndDebit (failing [TxCommit] 7 1000) (sample_data 11)
       \<lparr>users = [sample_user 11 (js ''a'') 10], summaries = []\<rparr> = None \<and>
   generate_v1 generateSummary (failing [] 7 1000) (sample_request 11)
       \<lparr>users = [sample_user 11 (js ''a'') 10], summaries = []\<rparr> =
     (reply 200 (Generated
         \<lparr>d_title = js ''Talk'', d_keyPoints = [], d_fullSummary = js ''This video discusses ''\<rparr>
         None sample_url None None 9),
      \<lparr>users = [sample_user 11 (js ''a'') 10], summaries = []\<rparr>) \<and>
   createAndDebit (failing [] 7 1000) (sample_data 11)
       \<lparr>users = [sample_user 11 (js ''a'') 10], summaries = []\<rparr> =
     Some ((sample_row 7 11)\<lparr>s_createdAt := 1000\<rparr>,
           \<lparr>users = [sample_user 11 (js ''a'') 9],
              summaries = [(sample_row 7 11)\<lparr>s_createdAt := 1000\<rparr>]\<rparr>)"
proof -
  let ?d = "\<lparr>users = [sample_user 11 (js ''a'') 10], summaries = []\<rparr>"
  note a = generate_persistence
    [where req = "sample_request 11" and uid = 11 and content = "js ''Hello there.''"
       and md = sample_metadata and videoId = "js ''abc''" and e = "failing [TxCommit] 7 1000"
       and d = ?d and u = "sample_user 11 (js ''a'') 10" and gen = generateSummary
       and dat = "sample_data 11",
     OF sample_request_fields, OF _ _ _ findUser_sample]
  note b = generate_persistence
    [where req = "sample_request 11" and uid = 11 and content = "js ''Hello there.''"
       and md = sample_metadata and videoId = "js ''abc''" and e = "failing [] 7 1000"
       and d = ?d and u = "sample_user 11 (js ''a'') 10" and gen = generateSummary
       and dat = "sample_data 11",
     OF sample_request_fields, OF _ _ _ findUser_sample]
  from a b sample_data_stored show ?thesis
    by (simp add: failing_fails sample_url_eq sample_user_fields sample_summary
        sample_summary_nonempty debit_sample)
qed

text \<open>
  The creation of the row rejects in the first variant, the update of the credit in the
  second: the answer is 200 and not 500, and nothing is written.
\<close>

theorem generate_persistence_counterexample:
  "fails (failing [SummaryCreate] 7 1000) SummaryCreate \<and>
   generate_v1 generateSummary (failing [SummaryCreate] 7 1000) (sample_request 11)
       \<lparr>users = [sample_user 11 (js ''a'') 10], summaries = []\<rparr> =
     (reply 200 (Generated
         \<lparr>d_title = js ''Talk'', d_keyPoints = [], d_fullSummary = js ''This video discusses ''\<rparr>
         None sample_url None None 9),
      \<lparr>users = [sample_user 11 (js ''a'') 10], summaries = []\<rparr>) \<and>
   status (reply 200 (Generated
         \<lparr>d_title = js ''Talk'', d_keyPoints = [], d_fullSummary = js ''This video discusses ''\<rparr>
         None sample_url None None 9)) \<noteq> 500 \<and>
   fails (failing [UserUpdate] 7 1000) UserUpdate \<and>
   generate_v2 generateSummary (failing [UserUpdate] 7 1000) (sample_request 11)
       \<lparr>users = [sample_user 11 (js ''a'') 10], summaries = []\<rparr> =
     (reply 200 (Generated
         \<lparr>d_title = js ''Talk'', d_keyPoints = [], d_fullSummary = js ''This video discusses ''\<rparr>
         None sample_url None (Some False) 9),
      \<lparr>users = [sample_user 11 (js ''a'') 10], summaries = []\<rparr>)"
proof -
  let ?d = "\<lparr>users = [sample_user 11 (js ''a'') 10], summaries = []\<rparr>"
  have 1: "generate_v1 generateSummary (failing [SummaryCreate] 7 1000) (sample_request 11) ?d =
     (reply 200 (Generated
         \<lparr>d_title = js ''Talk'', d_keyPoints = [], d_fullSummary = js ''This video discusses ''\<rparr>
         None sample_url None None 9), ?d)"
    using sample_v1_generated [where cs = "[SummaryCreate]" and i = 7 and t = 1000 and credits = 10]
    by simp
  have 2: "generate_v2 generateSummary (failing [UserUpdate] 7 1000) (sample_request 11) ?d =
     (reply 200 (Generated
         \<lparr>d_title = js ''Talk'', d_keyPoints = [], d_fullSummary = js ''This video discusses ''\<rparr>
         None sample_url None (Some False) 9), ?d)"
    using generate_v2_new [where gen = generateSummary and e = "failing [UserUpdate] 7 1000"
        and d = ?d and u = "sample_user 11 (js ''a'') 10",
        OF sample_request_fields _ _ _ findUser_sample _ sample_generated]
    by (simp add: failing_fails sample_url_eq sample_user_fields sample_summary)
  show ?thesis using 1 2 by (simp add: failing_fails reply_def)
qed

section \<open>Saving a summary\<close>

text \<open>
  C7. The account already has a row for the video URL. The first variant of the save
  route does no lookup; its create call gives no \<^verbatim>\<open>title\<close> and no \<^verbatim>\<open>videoId\<close>, which the
  schema requires, so it answers 500 and the store is unchanged, with or without a
  stored row. The second variant returns the key and the creation time of the stored row
  and creates nothing, and creates the row when there is none.
\<close>

theorem save_existing_record:
  "save_v1 (failing [] 7 1000) 11 sample_save
       \<lparr>users = [sample_user 11 (js ''a'') 3], summaries = [sample_row 5 11]\<rparr> =
     (reply 500 (Error (js ''Failed to create summary'')),
      \<lparr>users = [sample_user 11 (js ''a'') 3], summaries = [sample_row 5 11]\<rparr>) \<and>
   save_v2 (failing [] 7 1000) 11 sample_save
       \<lparr>users = [sample_user 11 (js ''a'') 3], summaries = [sample_row 5 11]\<rparr> =
     (reply 200 (Saved 5 10 (Some True)),
      \<lparr>users = [sample_user 11 (js ''a'') 3], summaries = [sample_row 5 11]\<rparr>) \<and>
   save_v1 (failing [] 7 1000) 11 sample_save
       \<lparr>users = [sample_user 11 (js ''a'') 3], summaries = []\<rparr> =
     (reply 500 (Error (js ''Failed to create summary'')),
      \<lparr>users = [sample_user 11 (js ''a'') 3], summaries = []\<rparr>) \<and>
   save_v2 (failing [] 7 1000) 11 sample_save
       \<lparr>users = [sample_user 11 (js ''a'') 3], summaries = []\<rparr> =
     (reply 200 (Saved 7 1000 (Some True)),
      \<lparr>users = [sample_user 11 (js ''a'') 3],
         summaries = [(sample_row 7 11)\<lparr>s_createdAt := 1000\<rparr>]\<rparr>)"
proof -
  let ?d = "\<lparr>users = [sample_user 11 (js ''a'') 3], summaries = [sample_row 5 11]\<rparr>"
  let ?n = "\<lparr>users = [sample_user 11 (js ''a'') 3], summaries = []\<rparr>"
  note v1 = save_v1_rejected [where e = "failing [] 7 1000" and uid = 11,
        OF sample_save_fields(1) sample_request_fields(6) sample_save_fields(2-5)]
  have 2: "save_v2 (failing [] 7 1000) 11 sample_save ?d =
     (reply 200 (Saved 5 10 (Some True)), ?d)"
    using save_v2_existing [where e = "failing [] 7 1000" and uid = 11 and d = ?d
        and ex = "sample_row 5 11",
        OF sample_save_fields(1) sample_request_fields(6) sample_save_fields(2-5)]
    by (simp add: failing_fails sample_save_url sample_row_fields)
  have 4: "save_v2 (failing [] 7 1000) 11 sample_save ?n =
     (reply 200 (Saved 7 1000 (Some True)),
      \<lparr>users = [sample_user 11 (js ''a'') 3],
         summaries = [(sample_row 7 11)\<lparr>s_createdAt := 1000\<rparr>]\<rparr>)"
    using save_v2_new [where e = "failing [] 7 1000" and uid = 11 and d = ?n,
        OF sample_save_fields(1) sample_request_fields(6) sample_save_fields(2-6)]
    by (simp add: failing_fails findUser_sample sample_save_fields or_else_def
        sample_row_def videoUrlOf_def sample_url_default)
  from v1 [of ?d] 2 v1 [of ?n] 4 show ?thesis by simp
qed

section \<open>Deleting the summary of another account\<close>

text \<open>
  C8. A row owned by account \<open>a\<close>, keys of rows distinct, and a delete request for its key
  by another account \<open>b\<close> whose lookup is not rejected: the answer is 404 and the store is
  unchanged. The route is the same in both variants of the file.
\<close>

theorem delete_by_other_account:
  assumes "r \<in> set (summaries d)" and "s_userId r = a" and "a \<noteq> b"
    and "distinct (map s_id (summaries d))" and "\<not> fails e SummaryFindFirst"
  shows "delete_route e b (s_id r) d = (reply 404 (Error (js ''Summary not found'')), d)"
proof -
  have "find (\<lambda>x. s_id x = s_id r \<and> s_userId x = b) (summaries d) = None"
    using assms by (intro find_by_key_unique) auto
  with assms(5) show ?thesis by (simp add: delete_route_def)
qed

text \<open>Two rows of two accounts; the second account asks for the row of the first.\<close>

theorem delete_by_other_account_witness:
  "delete_route (failing [] 0 0) 12 5 \<lparr>users = [], summaries = [sample_row 5 11, sample_row 6 12]\<rparr>
     = (reply 404 (Error (js ''Summary not found'')),
        \<lparr>users = [], summaries = [sample_row 5 11, sample_row 6 12]\<rparr>)"
  using delete_by_other_account
    [of "sample_row 5 11" "\<lparr>users = [], summaries = [sample_row 5 11, sample_row 6 12]\<rparr>" 11 12
        "failing [] 0 0"]
  by (simp add: sample_row_fields failing_fails)

section \<open>Signing up\<close>

text \<open>
  C9 (as amended). With the three fields present and the lookup not rejected: a signup
  with a registered email is answered with status 400 (``User already exists'') and
  leaves the store unchanged; a signup with a new email whose writes are not rejected is
  answered with status 200 and 10 credits, and adds one account, with that email and 10
  credits.
\<close>

theorem signup_existing_or_new:
  assumes req: "su_email req = Some email" "email \<noteq> []" "su_password req = Some password"
      "password \<noteq> []" "su_name req = Some name" "name \<noteq> []"
    and look: "\<not> fails e UserFindUnique"
  shows "(findUserByEmail email d \<noteq> None \<longrightarrow>
            signup c e req d = (reply 400 (Error (js ''User already exists'')), d)) \<and>
         (findUserByEmail email d = None \<and> \<not> fails e UserCreate \<and> \<not> fails e UserUpdate \<longrightarrow>
            fst (signup c e req d) =
              reply 200 (Session (accessToken c (new_id e) email) (now e + refreshTokenExpiresIn)
                           (new_id e) (Some name) email 10) \<and>
            length (users (snd (signup c e req d))) = Suc (length (users d)) \<and>
            u_email (last (users (snd (signup c e req d)))) = email \<and>
            u_credits (last (users (snd (signup c e req d)))) = 10)"
  using assms by (auto simp: signup_def falsy_def Let_def)

text \<open>The same request on a store that has the email and on an empty store.\<close>

theorem signup_existing_or_new_witness:
  "signup sample_crypto (failing [] 12 1000) sample_signup
       \<lparr>users = [sample_user 11 (js ''ann@example.org'') 3], summaries = []\<rparr> =
     (reply 400 (Error (js ''User already exists'')),
      \<lparr>users = [sample_user 11 (js ''ann@example.org'') 3], summaries = []\<rparr>) \<and>
   fst (signup sample_crypto (failing [] 12 1000) sample_signup \<lparr>users = [], summaries = []\<rparr>) =
     reply 200 (Session (js ''jwt'') (1000 + refreshTokenExpiresIn) 12 (Some (js ''Ann''))
                  (js ''ann@example.org'') 10) \<and>
   u_credits (last (users (snd (signup sample_crypto (failing [] 12 1000) sample_signup
                                  \<lparr>users = [], summaries = []\<rparr>)))) = 10"
proof -
  have f: "su_email sample_signup = Some (js ''ann@example.org'')" "js ''ann@example.org'' \<noteq> []"
    "su_password sample_signup = Some (js ''secret'')" "js ''secret'' \<noteq> []"
    "su_name sample_signup = Some (js ''Ann'')" "js ''Ann'' \<noteq> []"
    by (simp_all add: sample_signup_def js_def)
  have l: "\<not> fails (failing [] 12 1000) UserFindUnique" by (simp add: failing_fails)
  have 1: "findUserByEmail (js ''ann@example.org'')
             \<lparr>users = [sample_user 11 (js ''ann@example.org'') 3], summaries = []\<rparr> \<noteq> None"
    by (simp add: findUserByEmail_def sample_user_fields)
  have 2: "findUserByEmail (js ''ann@example.org'') \<lparr>users = [], summaries = []\<rparr> = None"
    by (simp add: findUserByEmail_def)
  have 3: "accessToken sample_crypto 12 (js ''ann@example.org'') = js ''jwt''"
    by (simp add: sample_crypto_def)
  from signup_existing_or_new [OF f l, of "\<lparr>users = [sample_user 11 (js ''ann@example.org'') 3], summaries = []\<rparr>" sample_crypto] 1
  have a: "signup sample_crypto (failing [] 12 1000) sample_signup
       \<lparr>users = [sample_user 11 (js ''ann@example.org'') 3], summaries = []\<rparr> =
     (reply 400 (Error (js ''User already exists'')),
      \<lparr>users = [sample_user 11 (js ''ann@example.org'') 3], summaries = []\<rparr>)" by blast
  from signup_existing_or_new [OF f l, of "\<lparr>users = [], summaries = []\<rparr>" sample_crypto] 2
  have b: "fst (signup sample_crypto (failing [] 12 1000) sample_signup \<lparr>users = [], summaries = []\<rparr>) =
     reply 200 (Session (accessToken sample_crypto (new_id (failing [] 12 1000)) (js ''ann@example.org''))
                  (now (failing [] 12 1000) + refreshTokenExpiresIn) (new_id (failing [] 12 1000))
                  (Some (js ''Ann'')) (js ''ann@example.org'') 10)"
    and c: "u_credits (last (users (snd (signup sample_crypto (failing [] 12 1000) sample_signup
                                  \<lparr>users = [], summaries = []\<rparr>)))) = 10"
    by (simp_all add: failing_fails)
  from a b c show ?thesis by (simp add: failing_fails 3)
qed

text \<open>The status for a registered email is 400, not 409.\<close>

theorem signup_existing_or_new_counterexample:
  "findUserByEmail (js ''ann@example.org'')
     \<lparr>users = [sample_user 11 (js ''ann@example.org'') 3], summaries = []\<rparr>
     = Some (sample_user 11 (js ''ann@example.org'') 3) \<and>
   status (fst (signup sample_crypto (failing [] 12 1000) sample_signup
                  \<lparr>users = [sample_user 11 (js ''ann@example.org'') 3], summaries = []\<rparr>)) = 400 \<and>
   status (fst (signup sample_crypto (failing [] 12 1000) sample_signup
                  \<lparr>users = [sample_user 11 (js ''ann@example.org'') 3], summaries = []\<rparr>)) \<noteq> 409"
  by (simp add: signup_def falsy_def sample_signup_def findUserByEmail_def sample_user_fields
      failing_fails reply_def js_def)

section \<open>The lookup of the first generate route\<close>




end
